theory Spec2Isabelle
  imports Complex_Main "HOL-Library.Char_ord" "HOL-Library.List_Lexorder"
begin

section \<open>The expense tracker of \<^verbatim>\<open>expense_tracker.py\<close>\<close>

text \<open>
  The class \<^verbatim>\<open>ExpenseTracker\<close> keeps a list of expense dictionaries in memory, reads it
  from \<^verbatim>\<open>expenses.json\<close> when it is constructed and writes it back after each add, update
  and delete. This theory embeds the class method by method. The Python builtins the
  methods call (\<^verbatim>\<open>float\<close>, \<^verbatim>\<open>str.strip\<close>, \<^verbatim>\<open>str.lower\<close>,
  \<^verbatim>\<open>datetime.strptime\<close>, \<^verbatim>\<open>sum\<close>, \<^verbatim>\<open>sorted\<close>, float comparison and addition) are
  modelled first, after CPython's implementation.

  A Python string is modelled as a \<^typ>\<open>string\<close> whose characters are the code points
  below 256; strings with code points above that are outside the model.
\<close>

subsection \<open>Characters and \<^verbatim>\<open>str\<close> methods\<close>

definition is_digit :: "char \<Rightarrow> bool" where
  "is_digit c = (c \<in> set ''0123456789'')"

definition digit_val :: "char \<Rightarrow> nat" where
  "digit_val c = of_char c - 48"

definition digits_val :: "string \<Rightarrow> nat" where
  "digits_val ds = foldl (\<lambda>a c. 10 * a + digit_val c) 0 ds"

text \<open>
  \<^verbatim>\<open>str.isspace\<close> on one code point below 256: the ASCII white space, the four
  separators \<^verbatim>\<open>\x1c\<close> to \<^verbatim>\<open>\x1f\<close>, NEL and the no-break space.
\<close>

definition is_space :: "char \<Rightarrow> bool" where
  "is_space c = ((of_char c :: nat) \<in> set [9, 10, 11, 12, 13, 28, 29, 30, 31, 32, 133, 160])"

text \<open>\<^verbatim>\<open>s.strip()\<close>: white space removed at both ends.\<close>

definition strip :: "string \<Rightarrow> string" where
  "strip s = rev (dropWhile is_space (rev (dropWhile is_space s)))"

text \<open>
  \<^verbatim>\<open>s.lower()\<close>: below 256 the letters with a lower-case partner are A to Z and
  \<^verbatim>\<open>\xc0\<close> to \<^verbatim>\<open>\xde\<close> without the multiplication sign \<^verbatim>\<open>\xd7\<close>; the partner is 32
  code points up.
\<close>

definition lower_char :: "char \<Rightarrow> char" where
  "lower_char c =
     (let n = (of_char c :: nat)
      in if (65 \<le> n \<and> n \<le> 90) \<or> (192 \<le> n \<and> n \<le> 222 \<and> n \<noteq> 215)
         then char_of (n + 32) else c)"

definition lower :: "string \<Rightarrow> string" where
  "lower s = map lower_char s"

subsection \<open>Python floats\<close>

text \<open>
  A \<^verbatim>\<open>float\<close> is an IEEE 754 binary64 value: a finite number (kept as the rational it
  denotes; the sign of zero is not kept), an infinity, or NaN.
\<close>

datatype pyfloat = Finite rat | PosInf | NegInf | NaN

text \<open>\<^verbatim>\<open>a <= b\<close>: false whenever a NaN is involved.\<close>

fun float_le :: "pyfloat \<Rightarrow> pyfloat \<Rightarrow> bool" where
  "float_le NaN _ = False"
| "float_le _ NaN = False"
| "float_le NegInf _ = True"
| "float_le _ PosInf = True"
| "float_le (Finite a) (Finite b) = (a \<le> b)"
| "float_le (Finite _) NegInf = False"
| "float_le PosInf (Finite _) = False"
| "float_le PosInf NegInf = False"

text \<open>\<^verbatim>\<open>a > b\<close>, used to state what the specification calls a positive amount.\<close>

fun float_gt :: "pyfloat \<Rightarrow> pyfloat \<Rightarrow> bool" where
  "float_gt NaN _ = False"
| "float_gt _ NaN = False"
| "float_gt PosInf PosInf = False"
| "float_gt PosInf _ = True"
| "float_gt _ PosInf = False"
| "float_gt NegInf _ = False"
| "float_gt (Finite _) NegInf = True"
| "float_gt (Finite a) (Finite b) = (b < a)"

text \<open>\<^verbatim>\<open>n.bit_length()\<close> of a natural number.\<close>

fun bit_length :: "nat \<Rightarrow> nat" where
  "bit_length n = (if n = 0 then 0 else Suc (bit_length (n div 2)))"

declare bit_length.simps [simp del]

definition pow2 :: "int \<Rightarrow> rat" where
  "pow2 e = (if 0 \<le> e then 2 ^ nat e else 1 / 2 ^ nat (- e))"

definition pow10 :: "int \<Rightarrow> rat" where
  "pow10 e = (if 0 \<le> e then 10 ^ nat e else 1 / 10 ^ nat (- e))"

definition round_half_even :: "rat \<Rightarrow> int" where
  "round_half_even x =
     (let f = \<lfloor>x\<rfloor>; r = x - of_int f
      in if r < 1 / 2 then f
         else if 1 / 2 < r then f + 1
         else if even f then f else f + 1)"

text \<open>
  \<open>\<lfloor>log\<^sub>2 a\<rfloor>\<close> for a positive rational \<open>a\<close>: one less than the bit length of \<open>\<lfloor>a\<rfloor>\<close> when
  \<open>a \<ge> 1\<close>; below 1 it is \<open>- \<lceil>log\<^sub>2 (1 / a)\<rceil>\<close>, and \<open>\<lceil>log\<^sub>2 y\<rceil>\<close> is the bit length of
  \<open>\<lceil>y\<rceil> - 1\<close>.
\<close>

definition floor_log2 :: "rat \<Rightarrow> int" where
  "floor_log2 a =
     (if 1 \<le> a then int (bit_length (nat \<lfloor>a\<rfloor>)) - 1
      else - int (bit_length (nat (\<lceil>1 / a\<rceil> - 1))))"

text \<open>
  Rounding of an exact rational to binary64, to nearest with ties to even: \<open>e\<close> is the
  exponent of the last place (53 significant bits, not below the subnormal exponent
  \<open>- 1074\<close>), \<open>m\<close> the rounded significand, and a result of \<open>2 ^ 1024\<close> or more overflows to
  an infinity.
\<close>

definition binary64 :: "rat \<Rightarrow> pyfloat" where
  "binary64 q =
     (if q = 0 then Finite 0
      else
        let a = \<bar>q\<bar>;
            e = max (floor_log2 a - 52) (- 1074);
            m = round_half_even (a / pow2 e);
            v = of_int m * pow2 e
        in if pow2 1024 \<le> v then (if q < 0 then NegInf else PosInf)
           else Finite (if q < 0 then - v else v))"

text \<open>\<^verbatim>\<open>a + b\<close> on floats: the exact sum, rounded.\<close>

fun float_add :: "pyfloat \<Rightarrow> pyfloat \<Rightarrow> pyfloat" where
  "float_add NaN _ = NaN"
| "float_add _ NaN = NaN"
| "float_add PosInf NegInf = NaN"
| "float_add NegInf PosInf = NaN"
| "float_add PosInf _ = PosInf"
| "float_add _ PosInf = PosInf"
| "float_add NegInf _ = NegInf"
| "float_add _ NegInf = NegInf"
| "float_add (Finite a) (Finite b) = binary64 (a + b)"

text \<open>
  \<^verbatim>\<open>sum(xs)\<close>: the items added from left to right to the start value, the integer 0,
  which float addition converts to 0.0. (CPython 3.12 and later add floats with a
  compensated summation whose result can differ in the last places; the model is the
  documented left-to-right sum.)
\<close>

definition py_sum :: "pyfloat list \<Rightarrow> pyfloat" where
  "py_sum xs = foldl float_add (Finite 0) xs"

subsection \<open>\<^verbatim>\<open>float(s)\<close> on a string\<close>

text \<open>
  CPython first checks the underscores of the whole string (each one must stand between
  two digits) and removes them, then strips white space, and then reads an optional sign
  followed by a decimal number or by \<^verbatim>\<open>inf\<close>, \<^verbatim>\<open>infinity\<close> or \<^verbatim>\<open>nan\<close> in any letter case.
  The white space stripped here is the ASCII white space and the two white-space code
  points above 127; \<^verbatim>\<open>\x1c\<close> to \<^verbatim>\<open>\x1f\<close> are not stripped. The result \<open>None\<close> stands for
  \<^verbatim>\<open>ValueError\<close>.
\<close>

fun underscores_ok :: "char \<Rightarrow> string \<Rightarrow> bool" where
  "underscores_ok prev [] = (prev \<noteq> CHR ''_'')"
| "underscores_ok prev (c # cs) =
     (if c = CHR ''_'' then is_digit prev \<and> underscores_ok c cs
      else (prev = CHR ''_'' \<longrightarrow> is_digit c) \<and> underscores_ok c cs)"

definition strip_underscores :: "string \<Rightarrow> string option" where
  "strip_underscores s =
     (if underscores_ok (CHR 0x00) s then Some (filter (\<lambda>c. c \<noteq> CHR ''_'') s) else None)"

definition float_space :: "char \<Rightarrow> bool" where
  "float_space c = ((of_char c :: nat) \<in> set [9, 10, 11, 12, 13, 32, 133, 160])"

definition float_strip :: "string \<Rightarrow> string" where
  "float_strip s = rev (dropWhile float_space (rev (dropWhile float_space s)))"

definition ascii_lower :: "char \<Rightarrow> char" where
  "ascii_lower c =
     (let n = (of_char c :: nat) in if 65 \<le> n \<and> n \<le> 90 then char_of (n + 32) else c)"

definition split_sign :: "string \<Rightarrow> bool \<times> string" where
  "split_sign s =
     (case s of
        [] \<Rightarrow> (False, [])
      | c # r \<Rightarrow> if c = CHR ''-'' then (True, r) else if c = CHR ''+'' then (False, r)
                 else (False, s))"

definition parse_exponent :: "string \<Rightarrow> int option" where
  "parse_exponent s =
     (case s of
        [] \<Rightarrow> Some 0
      | c # r \<Rightarrow>
          if c = CHR ''e'' \<or> c = CHR ''E'' then
            (let (neg, ds) = split_sign r
             in if ds \<noteq> [] \<and> list_all is_digit ds
                then Some (if neg then - int (digits_val ds) else int (digits_val ds))
                else None)
          else None)"

definition parse_decimal :: "string \<Rightarrow> rat option" where
  "parse_decimal s =
     (let ip = takeWhile is_digit s;
          r1 = dropWhile is_digit s;
          (fp, r2) = (case r1 of
                        [] \<Rightarrow> ([], r1)
                      | c # t \<Rightarrow> if c = CHR ''.''
                                 then (takeWhile is_digit t, dropWhile is_digit t)
                                 else ([], r1))
      in if ip @ fp = [] then None
         else case parse_exponent r2 of
                None \<Rightarrow> None
              | Some e \<Rightarrow> Some (of_nat (digits_val (ip @ fp)) * pow10 (e - int (length fp))))"

definition py_float :: "string \<Rightarrow> pyfloat option" where
  "py_float s =
     (case strip_underscores s of
        None \<Rightarrow> None
      | Some u \<Rightarrow>
          (let (neg, body) = split_sign (float_strip u)
           in case parse_decimal body of
                Some q \<Rightarrow> Some (binary64 (if neg then - q else q))
              | None \<Rightarrow>
                  if map ascii_lower body = ''inf'' \<or> map ascii_lower body = ''infinity''
                  then Some (if neg then NegInf else PosInf)
                  else if map ascii_lower body = ''nan'' then Some NaN
                  else None))"

subsection \<open>\<^verbatim>\<open>datetime.strptime(s, '%Y-%m-%d')\<close>\<close>

text \<open>
  \<^verbatim>\<open>strptime\<close> turns the format into the regular expression
  \<^verbatim>\<open>(?P<Y>\d\d\d\d)-(?P<m>1[0-2]|0[1-9]|[1-9])-(?P<d>3[0-1]|[1-2]\d|0[1-9]|[1-9]| [1-9])\<close>,
  matches it at the start of the string, refuses a match that leaves characters over, and
  builds a date from the three numbers, which refuses the year 0 and a day the month does
  not have. Each group is modelled by the list of its alternatives that match, in the
  order the expression tries them; the match is the first combination that fits.
\<close>

definition match_Y :: "string \<Rightarrow> (nat \<times> string) option" where
  "match_Y s =
     (case s of
        a # b # c # d # r \<Rightarrow>
          if is_digit a \<and> is_digit b \<and> is_digit c \<and> is_digit d
          then Some (digits_val [a, b, c, d], r) else None
      | _ \<Rightarrow> None)"

definition alt2 :: "(char \<Rightarrow> bool) \<Rightarrow> (char \<Rightarrow> bool) \<Rightarrow> string \<Rightarrow> (nat \<times> string) list" where
  "alt2 p q s =
     (case s of
        a # b # r \<Rightarrow> if p a \<and> q b then [(digits_val (filter is_digit [a, b]), r)] else []
      | _ \<Rightarrow> [])"

definition alt1 :: "(char \<Rightarrow> bool) \<Rightarrow> string \<Rightarrow> (nat \<times> string) list" where
  "alt1 p s = (case s of a # r \<Rightarrow> if p a then [(digit_val a, r)] else [] | _ \<Rightarrow> [])"

definition one_to_nine :: "char \<Rightarrow> bool" where
  "one_to_nine c = (c \<in> set ''123456789'')"

definition alts_m :: "string \<Rightarrow> (nat \<times> string) list" where
  "alts_m s =
     alt2 (\<lambda>c. c = CHR ''1'') (\<lambda>c. c \<in> set ''012'') s
     @ alt2 (\<lambda>c. c = CHR ''0'') one_to_nine s
     @ alt1 one_to_nine s"

definition alts_d :: "string \<Rightarrow> (nat \<times> string) list" where
  "alts_d s =
     alt2 (\<lambda>c. c = CHR ''3'') (\<lambda>c. c \<in> set ''01'') s
     @ alt2 (\<lambda>c. c \<in> set ''12'') is_digit s
     @ alt2 (\<lambda>c. c = CHR ''0'') one_to_nine s
     @ alt1 one_to_nine s
     @ alt2 (\<lambda>c. c = CHR '' '') one_to_nine s"

definition after_hyphen :: "string \<Rightarrow> string option" where
  "after_hyphen s = (case s of c # r \<Rightarrow> if c = CHR ''-'' then Some r else None | [] \<Rightarrow> None)"

definition regex_match :: "string \<Rightarrow> (nat \<times> nat \<times> nat \<times> string) option" where
  "regex_match s =
     (case match_Y s of
        None \<Rightarrow> None
      | Some (y, r1) \<Rightarrow>
          (case after_hyphen r1 of
             None \<Rightarrow> None
           | Some r2 \<Rightarrow>
               (case concat (map (\<lambda>(m, r3).
                        case after_hyphen r3 of
                          None \<Rightarrow> []
                        | Some r4 \<Rightarrow> map (\<lambda>(d, r5). (y, m, d, r5)) (alts_d r4))
                      (alts_m r2)) of
                  [] \<Rightarrow> None
                | x # _ \<Rightarrow> Some x)))"

definition is_leap :: "nat \<Rightarrow> bool" where
  "is_leap y = (y mod 4 = 0 \<and> (y mod 100 \<noteq> 0 \<or> y mod 400 = 0))"

definition days_in_month :: "nat \<Rightarrow> nat \<Rightarrow> nat" where
  "days_in_month y m =
     (if m = 2 then (if is_leap y then 29 else 28)
      else if m \<in> set [4, 6, 9, 11] then 30 else 31)"

text \<open>The checks of \<^verbatim>\<open>datetime.date(y, m, d)\<close>.\<close>

definition valid_ymd :: "nat \<Rightarrow> nat \<Rightarrow> nat \<Rightarrow> bool" where
  "valid_ymd y m d =
     (1 \<le> y \<and> y \<le> 9999 \<and> 1 \<le> m \<and> m \<le> 12 \<and> 1 \<le> d \<and> d \<le> days_in_month y m)"

definition strptime :: "string \<Rightarrow> (nat \<times> nat \<times> nat) option" where
  "strptime s =
     (case regex_match s of
        None \<Rightarrow> None
      | Some (y, m, d, rest) \<Rightarrow>
          if rest \<noteq> [] then None
          else if valid_ymd y m d then Some (y, m, d) else None)"

subsection \<open>Records, the tracker and what it prints\<close>

text \<open>
  One expense is a dictionary with the four keys \<^verbatim>\<open>amount\<close>, \<^verbatim>\<open>date\<close>, \<^verbatim>\<open>note\<close> and
  \<^verbatim>\<open>category\<close>.
\<close>

record expense =
  amount :: pyfloat
  date :: string
  "note" :: string
  category :: string

text \<open>
  What the methods print, one constructor for each \<^verbatim>\<open>print\<close> call of the class, carrying
  the values the line shows. The rendering of a line as text (an amount is shown with two
  decimals) is not modelled.
\<close>

datatype msg =
    Loaded nat
  | LoadError
  | Saved nat
  | SaveError
  | AmountNotPositive
  | AmountNotNumber
  | DateFormatError
  | Added
  | NoExpensesFound
  | NoMatch
  | ExpensesHeader
  | ExpenseLine nat string pyfloat string string
  | InvalidIndex
  | Updated
  | Deleted string pyfloat string
  | NoSummary
  | TotalSpent pyfloat
  | ByCategoryHeader
  | ByMonthHeader
  | GroupLine string pyfloat

text \<open>
  The only exception that leaves a method of the class: \<^verbatim>\<open>load_data\<close> catches
  \<^verbatim>\<open>JSONDecodeError\<close> and \<^verbatim>\<open>IOError\<close>, not the \<^verbatim>\<open>UnicodeDecodeError\<close> that reading
  raises on a file whose bytes are not text.
\<close>

datatype error = UnicodeDecodeError

text \<open>
  The file \<^verbatim>\<open>expenses.json\<close>: absent; present but not readable (\<^verbatim>\<open>IOError\<close>) or not JSON
  (\<^verbatim>\<open>JSONDecodeError\<close>); present with bytes that are not text; or holding a list of
  expenses. A file with JSON of another shape is outside the model.
\<close>

datatype json_file = Absent | Unreadable | Undecodable | Content "expense list"

text \<open>
  The state the methods work on: the list \<^verbatim>\<open>self.expenses\<close>, the file, whether the file
  can be written (\<^verbatim>\<open>save_data\<close> catches the \<^verbatim>\<open>IOError\<close> of a file that cannot), and the
  lines printed so far.
\<close>

record tracker =
  expenses :: "expense list"
  data_file :: json_file
  writable :: bool
  console :: "msg list"

definition print :: "msg \<Rightarrow> tracker \<Rightarrow> tracker" where
  "print m st = st\<lparr>console := console st @ [m]\<rparr>"

definition load_data :: "tracker \<Rightarrow> error + tracker" where
  "load_data st =
     (case data_file st of
        Content xs \<Rightarrow> Inr (print (Loaded (length xs)) (st\<lparr>expenses := xs\<rparr>))
      | Unreadable \<Rightarrow> Inr ((print LoadError st)\<lparr>expenses := []\<rparr>)
      | Undecodable \<Rightarrow> Inl UnicodeDecodeError
      | Absent \<Rightarrow> Inr (st\<lparr>expenses := []\<rparr>))"

text \<open>
  \<^verbatim>\<open>ExpenseTracker()\<close>: an empty list, then \<^verbatim>\<open>load_data\<close>; the exception of
  \<^verbatim>\<open>load_data\<close> leaves the constructor, and there is no tracker then.
\<close>

definition init :: "json_file \<Rightarrow> bool \<Rightarrow> error + tracker" where
  "init f w = load_data \<lparr>expenses = [], data_file = f, writable = w, console = []\<rparr>"

text \<open>
  \<^verbatim>\<open>save_data\<close> writes the whole list over the file. When the file cannot be written it
  prints the error and goes on; the model leaves the file as it was in that case.
\<close>

definition save_data :: "tracker \<Rightarrow> tracker" where
  "save_data st =
     (if writable st
      then print (Saved (length (expenses st))) (st\<lparr>data_file := Content (expenses st)\<rparr>)
      else print SaveError st)"

definition validate_amount :: "tracker \<Rightarrow> string \<Rightarrow> pyfloat option \<times> tracker" where
  "validate_amount st amount_str =
     (case py_float amount_str of
        None \<Rightarrow> (None, print AmountNotNumber st)
      | Some amt \<Rightarrow>
          if float_le amt (Finite 0) then (None, print AmountNotPositive st)
          else (Some amt, st))"

definition validate_date :: "tracker \<Rightarrow> string \<Rightarrow> string option \<times> tracker" where
  "validate_date st date_str =
     (case strptime date_str of
        None \<Rightarrow> (None, print DateFormatError st)
      | Some _ \<Rightarrow> (Some date_str, st))"

text \<open>\<^verbatim>\<open>category.strip() or "Uncategorized"\<close>.\<close>

definition normal_category :: "string \<Rightarrow> string" where
  "normal_category c = (if strip c = [] then ''Uncategorized'' else strip c)"

definition add_expense :: "tracker \<Rightarrow> string \<Rightarrow> string \<Rightarrow> string \<Rightarrow> string \<Rightarrow> bool \<times> tracker" where
  "add_expense st amount_str date_str note_str category_str =
     (let (validated_amount, st1) = validate_amount st amount_str;
          (validated_date, st2) = validate_date st1 date_str
      in case validated_amount of
           None \<Rightarrow> (False, st2)
         | Some a \<Rightarrow>
             (case validated_date of
                None \<Rightarrow> (False, st2)
              | Some d \<Rightarrow>
                  (let e = \<lparr>amount = a, date = d, note = strip note_str,
                              category = normal_category category_str\<rparr>;
                       st3 = st2\<lparr>expenses := expenses st2 @ [e]\<rparr>
                   in (True, print Added (save_data st3)))))"

text \<open>
  \<^verbatim>\<open>if filter_category:\<close> is false for \<^verbatim>\<open>None\<close> and for the empty string; the comparison of
  categories is on the lower-cased strings, the one of dates on the strings themselves.
\<close>

definition filter_by_category :: "string option \<Rightarrow> expense list \<Rightarrow> expense list" where
  "filter_by_category fc xs =
     (case fc of
        None \<Rightarrow> xs
      | Some c \<Rightarrow> if c = [] then xs else filter (\<lambda>e. lower (category e) = lower c) xs)"

definition filter_by_date :: "string option \<Rightarrow> expense list \<Rightarrow> expense list" where
  "filter_by_date fd xs =
     (case fd of
        None \<Rightarrow> xs
      | Some d \<Rightarrow> if d = [] then xs else filter (\<lambda>e. date e = d) xs)"

definition expense_lines :: "expense list \<Rightarrow> msg list" where
  "expense_lines xs =
     map (\<lambda>(i, e). ExpenseLine i (date e) (amount e) (category e) (note e))
       (zip [1 ..< Suc (length xs)] xs)"

definition view_expenses :: "tracker \<Rightarrow> string option \<Rightarrow> string option \<Rightarrow> tracker" where
  "view_expenses st filter_category filter_date =
     (if expenses st = [] then print NoExpensesFound st
      else
        let filtered = filter_by_date filter_date
                         (filter_by_category filter_category (expenses st))
        in if filtered = [] then print NoMatch st
           else st\<lparr>console := console st @ ExpensesHeader # expense_lines filtered\<rparr>)"

definition in_range :: "tracker \<Rightarrow> int \<Rightarrow> bool" where
  "in_range st index = (1 \<le> index \<and> index \<le> int (length (expenses st)))"

text \<open>
  \<^verbatim>\<open>update_expense\<close> changes the dictionary at position \<^verbatim>\<open>index - 1\<close> in place; the model
  builds the changed record and puts it back at the same position. \<^verbatim>\<open>if amount:\<close> and
  \<^verbatim>\<open>if date:\<close> skip \<^verbatim>\<open>None\<close> and the empty string, \<^verbatim>\<open>if note is not None:\<close> and
  \<^verbatim>\<open>if category is not None:\<close> skip \<^verbatim>\<open>None\<close> only.
\<close>

definition update_amount :: "tracker \<Rightarrow> expense \<Rightarrow> string option \<Rightarrow> expense \<times> tracker" where
  "update_amount st ex amount_arg =
     (case amount_arg of
        None \<Rightarrow> (ex, st)
      | Some a \<Rightarrow>
          if a = [] then (ex, st)
          else (case validate_amount st a of
                  (Some v, st') \<Rightarrow> (ex\<lparr>amount := v\<rparr>, st')
                | (None, st') \<Rightarrow> (ex, st')))"

definition update_date :: "tracker \<Rightarrow> expense \<Rightarrow> string option \<Rightarrow> expense \<times> tracker" where
  "update_date st ex date_arg =
     (case date_arg of
        None \<Rightarrow> (ex, st)
      | Some d \<Rightarrow>
          if d = [] then (ex, st)
          else (case validate_date st d of
                  (Some v, st') \<Rightarrow> (ex\<lparr>date := v\<rparr>, st')
                | (None, st') \<Rightarrow> (ex, st')))"

definition update_note :: "expense \<Rightarrow> string option \<Rightarrow> expense" where
  "update_note ex note_arg =
     (case note_arg of None \<Rightarrow> ex | Some n \<Rightarrow> ex\<lparr>note := strip n\<rparr>)"

definition update_category :: "expense \<Rightarrow> string option \<Rightarrow> expense" where
  "update_category ex category_arg =
     (case category_arg of None \<Rightarrow> ex | Some c \<Rightarrow> ex\<lparr>category := normal_category c\<rparr>)"

definition update_expense ::
  "tracker \<Rightarrow> int \<Rightarrow> string option \<Rightarrow> string option \<Rightarrow> string option \<Rightarrow> string option
     \<Rightarrow> bool \<times> tracker" where
  "update_expense st index amount_arg date_arg note_arg category_arg =
     (if \<not> in_range st index then (False, print InvalidIndex st)
      else
        let i = nat (index - 1);
            ex = expenses st ! i;
            (ex1, st1) = update_amount st ex amount_arg;
            (ex2, st2) = update_date st1 ex1 date_arg;
            ex3 = update_note ex2 note_arg;
            ex4 = update_category ex3 category_arg;
            st3 = st2\<lparr>expenses := (expenses st2)[i := ex4]\<rparr>
        in (True, print Updated (save_data st3)))"

text \<open>\<^verbatim>\<open>self.expenses.pop(index - 1)\<close> removes the element at that position.\<close>

definition delete_expense :: "tracker \<Rightarrow> int \<Rightarrow> bool \<times> tracker" where
  "delete_expense st index =
     (if \<not> in_range st index then (False, print InvalidIndex st)
      else
        let i = nat (index - 1);
            deleted = expenses st ! i;
            st1 = st\<lparr>expenses := take i (expenses st) @ drop (Suc i) (expenses st)\<rparr>;
            st2 = print (Deleted (date deleted) (amount deleted) (category deleted)) st1
        in (True, save_data st2))"

subsection \<open>The summary\<close>

text \<open>
  A Python dictionary keeps its keys in the order they were first inserted, so it is
  modelled as a list of pairs with distinct keys: \<^verbatim>\<open>d.get(k, default)\<close> and
  \<^verbatim>\<open>d[k] = v\<close>, which overwrites the value of a key that is there and adds a new key at
  the end.
\<close>

definition dict_get :: "(string \<times> pyfloat) list \<Rightarrow> string \<Rightarrow> pyfloat \<Rightarrow> pyfloat" where
  "dict_get d k dflt = (case map_of d k of Some v \<Rightarrow> v | None \<Rightarrow> dflt)"

fun dict_set :: "(string \<times> pyfloat) list \<Rightarrow> string \<Rightarrow> pyfloat \<Rightarrow> (string \<times> pyfloat) list" where
  "dict_set [] k v = [(k, v)]"
| "dict_set ((k', v') # d) k v =
     (if k' = k then (k, v) # d else (k', v') # dict_set d k v)"

text \<open>
  The two grouping loops of \<^verbatim>\<open>show_summary\<close> differ in the key only
  (\<^verbatim>\<open>e['category']\<close> and \<^verbatim>\<open>e['date'][:7]\<close>); one step of the loop is
  \<^verbatim>\<open>d[key] = d.get(key, 0) + e['amount']\<close>.
\<close>

definition group_step :: "(expense \<Rightarrow> string) \<Rightarrow> (string \<times> pyfloat) list \<Rightarrow> expense \<Rightarrow> (string \<times> pyfloat) list" where
  "group_step key d e = dict_set d (key e) (float_add (dict_get d (key e) (Finite 0)) (amount e))"

definition group_by :: "(expense \<Rightarrow> string) \<Rightarrow> expense list \<Rightarrow> (string \<times> pyfloat) list" where
  "group_by key xs = foldl (group_step key) [] xs"

definition month :: "expense \<Rightarrow> string" where
  "month e = take 7 (date e)"

text \<open>
  \<^verbatim>\<open>sorted(d.items())\<close> orders the pairs by key, strings being compared code point by
  code point; the keys of a dictionary differ, so the values are never compared.
\<close>

definition sorted_items :: "(string \<times> pyfloat) list \<Rightarrow> (string \<times> pyfloat) list" where
  "sorted_items d = sort_key fst d"

definition group_lines :: "(string \<times> pyfloat) list \<Rightarrow> msg list" where
  "group_lines d = map (\<lambda>(k, v). GroupLine k v) (sorted_items d)"

definition show_summary :: "tracker \<Rightarrow> tracker" where
  "show_summary st =
     (if expenses st = [] then print NoSummary st
      else
        let total = py_sum (map amount (expenses st));
            by_category = group_by category (expenses st);
            by_month = group_by month (expenses st)
        in st\<lparr>console := console st
                 @ [TotalSpent total]
                 @ ByCategoryHeader # group_lines by_category
                 @ ByMonthHeader # group_lines by_month\<rparr>)"

subsection \<open>Sequences of operations\<close>

text \<open>
  The three methods that change the list, as commands, and a run of commands on a
  tracker, one after the other.
\<close>

datatype command =
    Add string string string string
  | Update int "string option" "string option" "string option" "string option"
  | Delete int

fun perform :: "tracker \<Rightarrow> command \<Rightarrow> tracker" where
  "perform st (Add a d n c) = snd (add_expense st a d n c)"
| "perform st (Update i a d n c) = snd (update_expense st i a d n c)"
| "perform st (Delete i) = snd (delete_expense st i)"

definition run :: "tracker \<Rightarrow> command list \<Rightarrow> tracker" where
  "run st cs = foldl perform st cs"

subsection \<open>The record invariant, as specified and as enforced\<close>

text \<open>
  Following the specification's words, not the code: a string is a valid calendar date in
  strict \<^verbatim>\<open>YYYY-MM-DD\<close> form when it has ten characters, four digits, a hyphen, two digits,
  a hyphen and two digits, and the three numbers are a date of the calendar (years 1 to
  9999, as \<^verbatim>\<open>datetime\<close> has them).
\<close>

definition strict_iso_date :: "string \<Rightarrow> bool" where
  "strict_iso_date s =
     (length s = 10
      \<and> list_all is_digit (take 4 s) \<and> s ! 4 = CHR ''-''
      \<and> list_all is_digit (take 2 (drop 5 s)) \<and> s ! 7 = CHR ''-''
      \<and> list_all is_digit (drop 8 s)
      \<and> valid_ymd (digits_val (take 4 s)) (digits_val (take 2 (drop 5 s)))
            (digits_val (drop 8 s)))"

text \<open>
  Following the specification's words: the invariant it states for every stored record,
  an amount greater than 0, a valid date in that form and a category that is not empty.
\<close>

definition spec_record_ok :: "expense \<Rightarrow> bool" where
  "spec_record_ok e =
     (float_gt (amount e) (Finite 0) \<and> strict_iso_date (date e) \<and> category e \<noteq> [])"

text \<open>The records of a file, none when there is no file or it cannot be read.\<close>

definition file_records :: "json_file \<Rightarrow> expense list" where
  "file_records f = (case f of Content xs \<Rightarrow> xs | _ \<Rightarrow> [])"

text \<open>
  The arguments on which the two validations decide as the specification says: an amount
  string that \<^verbatim>\<open>float\<close> does not read as NaN, and a date string that is in the strict form
  or is refused by \<^verbatim>\<open>strptime\<close>. A command is plain when its amount and date arguments,
  as far as it has them, are of this kind.
\<close>

definition plain_amount :: "string \<Rightarrow> bool" where
  "plain_amount s = (py_float s \<noteq> Some NaN)"

definition plain_date :: "string \<Rightarrow> bool" where
  "plain_date s = (strptime s = None \<or> strict_iso_date s)"

fun plain_command :: "command \<Rightarrow> bool" where
  "plain_command (Add a d n c) = (plain_amount a \<and> plain_date d)"
| "plain_command (Update i a d n c) =
     ((case a of None \<Rightarrow> True | Some s \<Rightarrow> plain_amount s)
      \<and> (case d of None \<Rightarrow> True | Some s \<Rightarrow> plain_date s))"
| "plain_command (Delete i) = True"

subsection \<open>Example data\<close>

text \<open>
  The three records of the specification's summary example (it gives no notes; they are
  empty here), and a tracker that holds them in memory and in its file.
\<close>

definition example_expenses :: "expense list" where
  "example_expenses =
     [\<lparr>amount = Finite 10, date = ''2024-01-05'', note = '''', category = ''Food''\<rparr>,
      \<lparr>amount = Finite 5, date = ''2024-01-20'', note = '''', category = ''Food''\<rparr>,
      \<lparr>amount = Finite 7, date = ''2024-02-01'', note = '''', category = ''Travel''\<rparr>]"

definition example_tracker :: tracker where
  "example_tracker =
     \<lparr>expenses = example_expenses, data_file = Content example_expenses,
      writable = True, console = []\<rparr>"

text \<open>The tracker that the constructor gives when there is no file.\<close>

definition empty_tracker :: tracker where
  "empty_tracker = \<lparr>expenses = [], data_file = Absent, writable = True, console = []\<rparr>"

section \<open>Properties\<close>

subsection \<open>Evaluating the builtins on concrete input\<close>

lemma bit_length_0: "bit_length 0 = 0"
  by (simp add: bit_length.simps)

lemma bit_length_pos: "0 < n \<Longrightarrow> bit_length n = Suc (bit_length (n div 2))"
  by (subst bit_length.simps) simp

lemma floor_rat_numeral: "\<lfloor>numeral a / numeral b :: rat\<rfloor> = numeral a div numeral b"
  using floor_divide_of_int_eq [of "numeral a" "numeral b", where ?'a = rat] by simp

lemma ceiling_rat_numeral: "\<lceil>numeral a / numeral b :: rat\<rceil> = - (- numeral a div numeral b)"
  using ceiling_divide_eq_div [of "numeral a" "numeral b", where ?'a = rat] by simp

lemmas float_eval = binary64_def floor_log2_def round_half_even_def pow2_def pow10_def
  Let_def bit_length_0 bit_length_pos floor_rat_numeral ceiling_rat_numeral

lemmas parse_eval = py_float_def strip_underscores_def float_strip_def float_space_def
  split_sign_def parse_decimal_def parse_exponent_def is_digit_def digit_val_def
  digits_val_def ascii_lower_def

lemmas date_eval = strptime_def regex_match_def match_Y_def after_hyphen_def alts_m_def
  alts_d_def alt1_def alt2_def one_to_nine_def valid_ymd_def days_in_month_def is_leap_def
  is_digit_def digit_val_def digits_val_def

lemmas strip_eval = strip_def is_space_def normal_category_def

subsection \<open>What printing, saving and validating leave alone\<close>

lemma expenses_print [simp]: "expenses (print m st) = expenses st"
  by (simp add: print_def)

lemma data_file_print [simp]: "data_file (print m st) = data_file st"
  by (simp add: print_def)

lemma writable_print [simp]: "writable (print m st) = writable st"
  by (simp add: print_def)

lemma console_print [simp]: "console (print m st) = console st @ [m]"
  by (simp add: print_def)

lemma expenses_save_data [simp]: "expenses (save_data st) = expenses st"
  by (simp add: save_data_def)

lemma data_file_save_data:
  "data_file (save_data st) = (if writable st then Content (expenses st) else data_file st)"
  by (simp add: save_data_def)

lemma console_save_data:
  "console (save_data st) =
     console st @ [if writable st then Saved (length (expenses st)) else SaveError]"
  by (simp add: save_data_def)

lemma fst_validate_amount:
  "fst (validate_amount st s) =
     (case py_float s of
        None \<Rightarrow> None
      | Some amt \<Rightarrow> if float_le amt (Finite 0) then None else Some amt)"
  by (simp add: validate_amount_def split: option.splits)

lemma fst_validate_date:
  "fst (validate_date st s) = (if strptime s = None then None else Some s)"
  by (auto simp add: validate_date_def split: option.splits)

lemma snd_validate_amount [simp]:
  "expenses (snd (validate_amount st s)) = expenses st"
  "data_file (snd (validate_amount st s)) = data_file st"
  "writable (snd (validate_amount st s)) = writable st"
  by (simp_all add: validate_amount_def split: option.splits)

lemma snd_validate_date [simp]:
  "expenses (snd (validate_date st s)) = expenses st"
  "data_file (snd (validate_date st s)) = data_file st"
  "writable (snd (validate_date st s)) = writable st"
  by (simp_all add: validate_date_def split: option.splits)

lemma float_gt_not_le: "float_gt a (Finite 0) \<Longrightarrow> \<not> float_le a (Finite 0)"
  by (cases a) auto

lemma py_float_empty: "py_float [] = None"
  by (simp add: parse_eval)

lemma strptime_empty: "strptime [] = None"
  by (simp add: date_eval)

subsection \<open>An index out of range\<close>

text \<open>
  Claim C5. For an index outside \<open>[1, length]\<close>, \<^verbatim>\<open>update_expense\<close> and
  \<^verbatim>\<open>delete_expense\<close> both return \<^verbatim>\<open>False\<close>; the only thing they do is print the error
  line, so the list of expenses and the file are what they were, whatever the other
  arguments of the update are.
\<close>

theorem out_of_range_index_rejected:
  assumes "\<not> (1 \<le> index \<and> index \<le> int (length (expenses st)))"
  shows "update_expense st index a d n c = (False, print InvalidIndex st)
       \<and> delete_expense st index = (False, print InvalidIndex st)
       \<and> expenses (print InvalidIndex st) = expenses st
       \<and> data_file (print InvalidIndex st) = data_file st
       \<and> console (print InvalidIndex st) = console st @ [InvalidIndex]"
  using assms by (simp add: update_expense_def delete_expense_def in_range_def)

theorem out_of_range_index_rejected_witness:
  "\<not> (1 \<le> (3::int) \<and> (3::int) \<le> int (length (expenses
        \<lparr>expenses = [\<lparr>amount = Finite 4, date = ''2024-03-01'', note = ''tea'', category = ''Food''\<rparr>],
         data_file = Absent, writable = True, console = []\<rparr>)))
   \<and> update_expense \<lparr>expenses = [\<lparr>amount = Finite 4, date = ''2024-03-01'', note = ''tea'', category = ''Food''\<rparr>],
         data_file = Absent, writable = True, console = []\<rparr> 3 (Some ''9'') None None None
      = (False, \<lparr>expenses = [\<lparr>amount = Finite 4, date = ''2024-03-01'', note = ''tea'', category = ''Food''\<rparr>],
         data_file = Absent, writable = True, console = [InvalidIndex]\<rparr>)
   \<and> delete_expense \<lparr>expenses = [\<lparr>amount = Finite 4, date = ''2024-03-01'', note = ''tea'', category = ''Food''\<rparr>],
         data_file = Absent, writable = True, console = []\<rparr> 3
      = (False, \<lparr>expenses = [\<lparr>amount = Finite 4, date = ''2024-03-01'', note = ''tea'', category = ''Food''\<rparr>],
         data_file = Absent, writable = True, console = [InvalidIndex]\<rparr>)"
  using out_of_range_index_rejected [of 3
      "\<lparr>expenses = [\<lparr>amount = Finite 4, date = ''2024-03-01'', note = ''tea'', category = ''Food''\<rparr>],
         data_file = Absent, writable = True, console = []\<rparr>" "Some ''9''" None None None]
  by (simp add: print_def)

subsection \<open>Adding an expense\<close>

text \<open>
  Claim C1. When \<^verbatim>\<open>float\<close> reads the amount string as a number greater than 0 and
  \<^verbatim>\<open>validate_date\<close> accepts the date string, \<^verbatim>\<open>add_expense\<close> returns \<^verbatim>\<open>True\<close>, the new
  list is the old one with one record more at its end, the record holds the parsed
  amount, the date string as given, the stripped note and the stripped category (or
  \<^verbatim>\<open>Uncategorized\<close> when nothing is left of it), the records that were there keep their
  places, and \<^verbatim>\<open>save_data\<close> has run on the new list: a writable file holds it.
\<close>

theorem add_expense_valid:
  assumes "py_float amount_str = Some a" and "float_gt a (Finite 0)"
    and "fst (validate_date st date_str) \<noteq> None"
  shows "add_expense st amount_str date_str note_str category_str =
           (True, print Added (save_data (st\<lparr>expenses := expenses st @
              [\<lparr>amount = a, date = date_str, note = strip note_str,
                category = (if strip category_str = [] then ''Uncategorized''
                            else strip category_str)\<rparr>]\<rparr>)))
       \<and> expenses (snd (add_expense st amount_str date_str note_str category_str)) =
           expenses st @
              [\<lparr>amount = a, date = date_str, note = strip note_str,
                category = (if strip category_str = [] then ''Uncategorized''
                            else strip category_str)\<rparr>]
       \<and> length (expenses (snd (add_expense st amount_str date_str note_str category_str))) =
           length (expenses st) + 1
       \<and> (\<forall>i < length (expenses st).
             expenses (snd (add_expense st amount_str date_str note_str category_str)) ! i =
             expenses st ! i)
       \<and> (writable st \<longrightarrow>
             data_file (snd (add_expense st amount_str date_str note_str category_str)) =
             Content (expenses (snd (add_expense st amount_str date_str note_str category_str))))"
proof -
  have va: "validate_amount st amount_str = (Some a, st)"
    using assms(1,2) by (simp add: validate_amount_def float_gt_not_le)
  have vd: "validate_date st date_str = (Some date_str, st)"
    using assms(3) by (cases "strptime date_str") (simp_all add: validate_date_def)
  have eq: "add_expense st amount_str date_str note_str category_str =
           (True, print Added (save_data (st\<lparr>expenses := expenses st @
              [\<lparr>amount = a, date = date_str, note = strip note_str,
                category = (if strip category_str = [] then ''Uncategorized''
                            else strip category_str)\<rparr>]\<rparr>)))"
    by (simp add: add_expense_def va vd normal_category_def)
  show ?thesis
    unfolding eq by (simp add: data_file_save_data nth_append)
qed

theorem add_expense_valid_witness:
  "py_float ''12.50'' = Some (Finite (25 / 2)) \<and> float_gt (Finite (25 / 2)) (Finite 0)
   \<and> fst (validate_date example_tracker ''2024-03-15'') \<noteq> None
   \<and> add_expense example_tracker ''12.50'' ''2024-03-15'' '' lunch '' ''  '' =
       (True,
        \<lparr>expenses = example_expenses @
           [\<lparr>amount = Finite (25 / 2), date = ''2024-03-15'', note = ''lunch'',
             category = ''Uncategorized''\<rparr>],
         data_file = Content (example_expenses @
           [\<lparr>amount = Finite (25 / 2), date = ''2024-03-15'', note = ''lunch'',
             category = ''Uncategorized''\<rparr>]),
         writable = True, console = [Saved 4, Added]\<rparr>)"
proof -
  have h1: "py_float ''12.50'' = Some (Finite (25 / 2))"
    by (simp add: parse_eval float_eval)
  have h2: "float_gt (Finite (25 / 2)) (Finite 0)"
    by simp
  have d: "strptime ''2024-03-15'' = Some (2024, 3, 15)"
    by (simp add: date_eval)
  have h3: "fst (validate_date example_tracker ''2024-03-15'') \<noteq> None"
    by (simp add: fst_validate_date d)
  have s1: "strip '' lunch '' = ''lunch''"
    by (simp add: strip_eval)
  have s2: "strip ''  '' = []"
    by (simp add: strip_eval)
  have n: "length example_expenses = 3"
    by (simp add: example_expenses_def)
  show ?thesis
    using add_expense_valid [OF h1 h2 h3, of "'' lunch ''" "''  ''"] h1 h2 h3
    by (simp add: s1 s2 n print_def save_data_def example_tracker_def)
qed

lemma snd_add_expense_invalid:
  assumes "fst (validate_amount st a) = None \<or> fst (validate_date st d) = None"
  shows "fst (add_expense st a d n c) = False"
    and "expenses (snd (add_expense st a d n c)) = expenses st"
    and "data_file (snd (add_expense st a d n c)) = data_file st"
proof -
  obtain va st1 where va: "validate_amount st a = (va, st1)"
    by (cases "validate_amount st a")
  obtain vd st2 where vd: "validate_date st1 d = (vd, st2)"
    by (cases "validate_date st1 d")
  have e1: "expenses st1 = expenses st" "data_file st1 = data_file st"
    using snd_validate_amount [of st a] by (simp_all add: va)
  have e2: "expenses st2 = expenses st1" "data_file st2 = data_file st1"
    using snd_validate_date [of st1 d] by (simp_all add: vd)
  have "vd = fst (validate_date st d)"
    using fst_validate_date [of st1 d] fst_validate_date [of st d] by (simp add: vd)
  with assms have bad: "va = None \<or> vd = None"
    by (simp add: va)
  then have eq: "add_expense st a d n c = (False, st2)"
    by (auto simp add: add_expense_def va vd split: option.splits)
  show "fst (add_expense st a d n c) = False"
    and "expenses (snd (add_expense st a d n c)) = expenses st"
    and "data_file (snd (add_expense st a d n c)) = data_file st"
    by (simp_all add: eq e1 e2)
qed

lemma validate_amount_nan: "validate_amount st ''nan'' = (Some NaN, st)"
  by (simp add: validate_amount_def parse_eval)

lemma add_expense_nan:
  assumes "fst (validate_date st date_str) \<noteq> None"
  shows "add_expense st ''nan'' date_str note_str category_str =
     (True, print Added (save_data (st\<lparr>expenses := expenses st @
        [\<lparr>amount = NaN, date = date_str, note = strip note_str,
          category = normal_category category_str\<rparr>]\<rparr>)))"
proof -
  have vd: "validate_date st date_str = (Some date_str, st)"
    using assms by (cases "strptime date_str") (simp_all add: validate_date_def)
  show ?thesis
    by (simp add: add_expense_def validate_amount_nan vd)
qed

text \<open>
  Claim C6. When \<^verbatim>\<open>float\<close> raises on the amount string, or reads it as a number that is
  \<open>\<le> 0\<close>, or when \<^verbatim>\<open>validate_date\<close> refuses the date string, \<^verbatim>\<open>add_expense\<close> returns
  \<^verbatim>\<open>False\<close> and neither the list of expenses (so neither its length) nor the file
  changes, whatever the note and the category are. This does not reach every amount string
  that is no number: \<^verbatim>\<open>float\<close> reads \<^verbatim>\<open>nan\<close> as NaN without raising, the test
  \<^verbatim>\<open>amt <= 0\<close> is false for NaN, and with a date that is accepted \<^verbatim>\<open>add_expense\<close> returns
  \<^verbatim>\<open>True\<close> and appends a record whose amount is NaN, which is not greater than 0.
\<close>

theorem add_expense_invalid_but_nan:
  "((py_float amount_str = None
      \<or> (\<exists>a. py_float amount_str = Some a \<and> float_le a (Finite 0))
      \<or> fst (validate_date st date_str) = None) \<longrightarrow>
     fst (add_expense st amount_str date_str note_str category_str) = False
     \<and> expenses (snd (add_expense st amount_str date_str note_str category_str)) = expenses st
     \<and> length (expenses (snd (add_expense st amount_str date_str note_str category_str))) =
         length (expenses st)
     \<and> data_file (snd (add_expense st amount_str date_str note_str category_str)) =
         data_file st)
   \<and> py_float ''nan'' = Some NaN
   \<and> \<not> float_gt NaN (Finite 0)
   \<and> (fst (validate_date st date_str) \<noteq> None \<longrightarrow>
        fst (add_expense st ''nan'' date_str note_str category_str) = True
        \<and> expenses (snd (add_expense st ''nan'' date_str note_str category_str)) =
            expenses st @
              [\<lparr>amount = NaN, date = date_str, note = strip note_str,
                category = normal_category category_str\<rparr>])"
proof -
  have rejected: "(py_float amount_str = None
      \<or> (\<exists>a. py_float amount_str = Some a \<and> float_le a (Finite 0))
      \<or> fst (validate_date st date_str) = None) \<longrightarrow>
     fst (add_expense st amount_str date_str note_str category_str) = False
     \<and> expenses (snd (add_expense st amount_str date_str note_str category_str)) = expenses st
     \<and> length (expenses (snd (add_expense st amount_str date_str note_str category_str))) =
         length (expenses st)
     \<and> data_file (snd (add_expense st amount_str date_str note_str category_str)) =
         data_file st"
  proof
    assume "py_float amount_str = None
      \<or> (\<exists>a. py_float amount_str = Some a \<and> float_le a (Finite 0))
      \<or> fst (validate_date st date_str) = None"
    then have "fst (validate_amount st amount_str) = None
        \<or> fst (validate_date st date_str) = None"
      by (auto simp add: fst_validate_amount)
    then show "fst (add_expense st amount_str date_str note_str category_str) = False
     \<and> expenses (snd (add_expense st amount_str date_str note_str category_str)) = expenses st
     \<and> length (expenses (snd (add_expense st amount_str date_str note_str category_str))) =
         length (expenses st)
     \<and> data_file (snd (add_expense st amount_str date_str note_str category_str)) =
         data_file st"
      by (simp add: snd_add_expense_invalid)
  qed
  have nan: "py_float ''nan'' = Some NaN"
    by (simp add: parse_eval)
  have not_pos: "\<not> float_gt NaN (Finite 0)"
    by simp
  have added: "fst (validate_date st date_str) \<noteq> None \<longrightarrow>
        fst (add_expense st ''nan'' date_str note_str category_str) = True
        \<and> expenses (snd (add_expense st ''nan'' date_str note_str category_str)) =
            expenses st @
              [\<lparr>amount = NaN, date = date_str, note = strip note_str,
                category = normal_category category_str\<rparr>]"
    by (simp add: add_expense_nan)
  show ?thesis
    using rejected nan not_pos added by (intro conjI)
qed

theorem add_expense_invalid_but_nan_witness:
  "py_float ''abc'' = None
   \<and> fst (add_expense example_tracker ''abc'' ''2024-03-15'' ''x'' ''Food'') = False
   \<and> expenses (snd (add_expense example_tracker ''abc'' ''2024-03-15'' ''x'' ''Food'')) =
       example_expenses
   \<and> py_float ''-5'' = Some (Finite (- 5)) \<and> float_le (Finite (- 5)) (Finite 0)
   \<and> fst (add_expense example_tracker ''-5'' ''2024-03-15'' ''x'' ''Food'') = False
   \<and> expenses (snd (add_expense example_tracker ''-5'' ''2024-03-15'' ''x'' ''Food'')) =
       example_expenses
   \<and> fst (validate_date example_tracker ''2024-02-30'') = None
   \<and> fst (add_expense example_tracker ''7'' ''2024-02-30'' ''x'' ''Food'') = False
   \<and> expenses (snd (add_expense example_tracker ''7'' ''2024-02-30'' ''x'' ''Food'')) =
       example_expenses
   \<and> fst (validate_date example_tracker ''2024-03-15'') \<noteq> None
   \<and> fst (add_expense example_tracker ''nan'' ''2024-03-15'' ''x'' ''Food'') = True
   \<and> expenses (snd (add_expense example_tracker ''nan'' ''2024-03-15'' ''x'' ''Food'')) =
       example_expenses @
         [\<lparr>amount = NaN, date = ''2024-03-15'', note = ''x'', category = ''Food''\<rparr>]"
proof -
  have h1: "py_float ''abc'' = None"
    by (simp add: parse_eval)
  have h2: "py_float ''-5'' = Some (Finite (- 5))"
    by (simp add: parse_eval float_eval)
  have h3: "fst (validate_date example_tracker ''2024-02-30'') = None"
    by (simp add: fst_validate_date date_eval)
  have h4: "fst (validate_date example_tracker ''2024-03-15'') \<noteq> None"
    by (simp add: fst_validate_date date_eval)
  have e: "expenses example_tracker = example_expenses"
    by (simp add: example_tracker_def)
  have s: "strip ''x'' = ''x''" "normal_category ''Food'' = ''Food''"
    by (simp_all add: strip_eval)
  show ?thesis
    using
      add_expense_invalid_but_nan [of "''abc''" example_tracker "''2024-03-15''" "''x''" "''Food''"]
      add_expense_invalid_but_nan [of "''-5''" example_tracker "''2024-03-15''" "''x''" "''Food''"]
      add_expense_invalid_but_nan [of "''7''" example_tracker "''2024-02-30''" "''x''" "''Food''"]
      h1 h2 h3 h4
    by (simp add: e s)
qed

subsection \<open>Deleting an expense\<close>

text \<open>
  Claim C7. For an index \<open>i\<close> in \<open>[1, n]\<close>, \<^verbatim>\<open>delete_expense\<close> returns \<^verbatim>\<open>True\<close>, prints
  the line describing the removed record (its date, amount and category) before the line
  of \<^verbatim>\<open>save_data\<close>, and leaves the list without its element at position \<open>i\<close>: the
  length is \<open>n - 1\<close>, the records before position \<open>i\<close> keep their positions and the
  records after it move down by one.
\<close>

theorem delete_expense_in_range:
  assumes "1 \<le> index" and "index \<le> int (length (expenses st))"
  shows "fst (delete_expense st index) = True
       \<and> expenses (snd (delete_expense st index)) =
           take (nat (index - 1)) (expenses st) @ drop (nat index) (expenses st)
       \<and> length (expenses (snd (delete_expense st index))) = length (expenses st) - 1
       \<and> (\<forall>j < nat (index - 1).
             expenses (snd (delete_expense st index)) ! j = expenses st ! j)
       \<and> (\<forall>j. nat (index - 1) \<le> j \<and> j < length (expenses st) - 1 \<longrightarrow>
             expenses (snd (delete_expense st index)) ! j = expenses st ! Suc j)
       \<and> console (snd (delete_expense st index)) =
           console st @
             [Deleted (date (expenses st ! nat (index - 1)))
                      (amount (expenses st ! nat (index - 1)))
                      (category (expenses st ! nat (index - 1))),
              if writable st then Saved (length (expenses st) - 1) else SaveError]
       \<and> (writable st \<longrightarrow>
             data_file (snd (delete_expense st index)) =
             Content (expenses (snd (delete_expense st index))))"
proof -
  define i where "i = nat (index - 1)"
  have i: "i < length (expenses st)" and Si: "nat index = Suc i"
    using assms by (simp_all add: i_def)
  have xs: "expenses (snd (delete_expense st index)) =
      take i (expenses st) @ drop (Suc i) (expenses st)"
    using assms by (simp add: delete_expense_def in_range_def Let_def i_def)
  have len: "length (take i (expenses st) @ drop (Suc i) (expenses st)) = length (expenses st) - 1"
    using i by simp
  have before: "\<forall>j < i. (take i (expenses st) @ drop (Suc i) (expenses st)) ! j = expenses st ! j"
    using i by (simp add: nth_append)
  have after: "\<forall>j. i \<le> j \<and> j < length (expenses st) - 1 \<longrightarrow>
      (take i (expenses st) @ drop (Suc i) (expenses st)) ! j = expenses st ! Suc j"
    using i by (auto simp add: nth_append min_def)
  have con: "console (snd (delete_expense st index)) =
           console st @
             [Deleted (date (expenses st ! i)) (amount (expenses st ! i)) (category (expenses st ! i)),
              if writable st then Saved (length (expenses st) - 1) else SaveError]"
    using assms i by (simp add: delete_expense_def in_range_def Let_def i_def console_save_data)
  have fl: "writable st \<longrightarrow> data_file (snd (delete_expense st index)) =
             Content (expenses (snd (delete_expense st index)))"
    using assms by (simp add: delete_expense_def in_range_def Let_def data_file_save_data)
  have ok: "fst (delete_expense st index) = True"
    using assms by (simp add: delete_expense_def in_range_def Let_def)
  show ?thesis
    using ok len before after con fl unfolding xs Si i_def [symmetric] by simp
qed

theorem delete_expense_in_range_witness:
  "(1::int) \<le> 2 \<and> (2::int) \<le> int (length (expenses example_tracker))
   \<and> delete_expense example_tracker 2 =
       (True,
        \<lparr>expenses =
           [\<lparr>amount = Finite 10, date = ''2024-01-05'', note = '''', category = ''Food''\<rparr>,
            \<lparr>amount = Finite 7, date = ''2024-02-01'', note = '''', category = ''Travel''\<rparr>],
         data_file = Content
           [\<lparr>amount = Finite 10, date = ''2024-01-05'', note = '''', category = ''Food''\<rparr>,
            \<lparr>amount = Finite 7, date = ''2024-02-01'', note = '''', category = ''Travel''\<rparr>],
         writable = True,
         console = [Deleted ''2024-01-20'' (Finite 5) ''Food'', Saved 2]\<rparr>)"
proof -
  have h: "(1::int) \<le> 2" "(2::int) \<le> int (length (expenses example_tracker))"
    by (simp_all add: example_tracker_def example_expenses_def)
  have eq: "delete_expense example_tracker 2 =
       (True,
        \<lparr>expenses =
           [\<lparr>amount = Finite 10, date = ''2024-01-05'', note = '''', category = ''Food''\<rparr>,
            \<lparr>amount = Finite 7, date = ''2024-02-01'', note = '''', category = ''Travel''\<rparr>],
         data_file = Content
           [\<lparr>amount = Finite 10, date = ''2024-01-05'', note = '''', category = ''Food''\<rparr>,
            \<lparr>amount = Finite 7, date = ''2024-02-01'', note = '''', category = ''Travel''\<rparr>],
         writable = True,
         console = [Deleted ''2024-01-20'' (Finite 5) ''Food'', Saved 2]\<rparr>)"
    by (simp add: delete_expense_def in_range_def example_tracker_def example_expenses_def
        print_def save_data_def Let_def)
  show ?thesis
    using delete_expense_in_range [OF h] h eq by simp
qed

subsection \<open>Updating an expense\<close>

lemma fst_update_amount:
  "fst (update_amount st ex a) =
     (case a of
        None \<Rightarrow> ex
      | Some s \<Rightarrow> (case fst (validate_amount st s) of None \<Rightarrow> ex | Some v \<Rightarrow> ex\<lparr>amount := v\<rparr>))"
proof (cases a)
  case None
  then show ?thesis by (simp add: update_amount_def)
next
  case (Some s)
  show ?thesis
  proof (cases "s = []")
    case True
    with Some show ?thesis
      by (simp add: update_amount_def fst_validate_amount py_float_empty)
  next
    case False
    obtain v st' where "validate_amount st s = (v, st')"
      by (cases "validate_amount st s")
    with Some False show ?thesis
      by (cases v) (simp_all add: update_amount_def)
  qed
qed

lemma snd_update_amount [simp]:
  "expenses (snd (update_amount st ex a)) = expenses st"
  "data_file (snd (update_amount st ex a)) = data_file st"
  "writable (snd (update_amount st ex a)) = writable st"
proof -
  have "expenses (snd (update_amount st ex a)) = expenses st
      \<and> data_file (snd (update_amount st ex a)) = data_file st
      \<and> writable (snd (update_amount st ex a)) = writable st"
  proof (cases a)
    case None
    then show ?thesis by (simp add: update_amount_def)
  next
    case (Some s)
    obtain v st' where v: "validate_amount st s = (v, st')"
      by (cases "validate_amount st s")
    with snd_validate_amount [of st s]
    have "expenses st' = expenses st" "data_file st' = data_file st" "writable st' = writable st"
      by simp_all
    with Some v show ?thesis
      by (cases v) (simp_all add: update_amount_def)
  qed
  then show "expenses (snd (update_amount st ex a)) = expenses st"
    and "data_file (snd (update_amount st ex a)) = data_file st"
    and "writable (snd (update_amount st ex a)) = writable st"
    by simp_all
qed

lemma fst_update_date:
  "fst (update_date st ex d) =
     (case d of
        None \<Rightarrow> ex
      | Some s \<Rightarrow> (case fst (validate_date st s) of None \<Rightarrow> ex | Some v \<Rightarrow> ex\<lparr>date := v\<rparr>))"
proof (cases d)
  case None
  then show ?thesis by (simp add: update_date_def)
next
  case (Some s)
  show ?thesis
  proof (cases "s = []")
    case True
    with Some show ?thesis
      by (simp add: update_date_def fst_validate_date strptime_empty)
  next
    case False
    obtain v st' where "validate_date st s = (v, st')"
      by (cases "validate_date st s")
    with Some False show ?thesis
      by (cases v) (simp_all add: update_date_def)
  qed
qed

lemma snd_update_date [simp]:
  "expenses (snd (update_date st ex d)) = expenses st"
  "data_file (snd (update_date st ex d)) = data_file st"
  "writable (snd (update_date st ex d)) = writable st"
proof -
  have "expenses (snd (update_date st ex d)) = expenses st
      \<and> data_file (snd (update_date st ex d)) = data_file st
      \<and> writable (snd (update_date st ex d)) = writable st"
  proof (cases d)
    case None
    then show ?thesis by (simp add: update_date_def)
  next
    case (Some s)
    obtain v st' where v: "validate_date st s = (v, st')"
      by (cases "validate_date st s")
    with snd_validate_date [of st s]
    have "expenses st' = expenses st" "data_file st' = data_file st" "writable st' = writable st"
      by simp_all
    with Some v show ?thesis
      by (cases v) (simp_all add: update_date_def)
  qed
  then show "expenses (snd (update_date st ex d)) = expenses st"
    and "data_file (snd (update_date st ex d)) = data_file st"
    and "writable (snd (update_date st ex d)) = writable st"
    by simp_all
qed

lemma update_expense_in_range:
  assumes "in_range st index"
  shows "update_expense st index a d n c =
     (True, print Updated (save_data
        ((snd (update_date (snd (update_amount st (expenses st ! nat (index - 1)) a))
                 (fst (update_amount st (expenses st ! nat (index - 1)) a)) d))
         \<lparr>expenses := (expenses st)[nat (index - 1) :=
             update_category (update_note
               (fst (update_date (snd (update_amount st (expenses st ! nat (index - 1)) a))
                 (fst (update_amount st (expenses st ! nat (index - 1)) a)) d)) n) c]\<rparr>)))"
  using assms by (simp add: update_expense_def Let_def split_beta)

lemma console_validate_amount:
  "console (snd (validate_amount st s)) =
     console st @
       (case py_float s of
          None \<Rightarrow> [AmountNotNumber]
        | Some v \<Rightarrow> if float_le v (Finite 0) then [AmountNotPositive] else [])"
  by (simp add: validate_amount_def split: option.splits)

lemma console_validate_date:
  "console (snd (validate_date st s)) =
     console st @ (if strptime s = None then [DateFormatError] else [])"
  by (auto simp add: validate_date_def split: option.splits)

lemma console_update_amount:
  "console (snd (update_amount st ex a)) =
     console st @
       (case a of
          None \<Rightarrow> []
        | Some s \<Rightarrow>
            if s = [] then []
            else (case py_float s of
                    None \<Rightarrow> [AmountNotNumber]
                  | Some v \<Rightarrow> if float_le v (Finite 0) then [AmountNotPositive] else []))"
proof (cases a)
  case None
  then show ?thesis by (simp add: update_amount_def)
next
  case (Some s)
  obtain v st' where v: "validate_amount st s = (v, st')"
    by (cases "validate_amount st s")
  with console_validate_amount [of st s]
  have "console st' = console st @
       (case py_float s of
          None \<Rightarrow> [AmountNotNumber]
        | Some v \<Rightarrow> if float_le v (Finite 0) then [AmountNotPositive] else [])"
    by simp
  with Some v show ?thesis
    by (cases v) (simp_all add: update_amount_def)
qed

lemma console_update_date:
  "console (snd (update_date st ex d)) =
     console st @
       (case d of
          None \<Rightarrow> []
        | Some s \<Rightarrow> if s = [] \<or> strptime s \<noteq> None then [] else [DateFormatError])"
proof (cases d)
  case None
  then show ?thesis by (simp add: update_date_def)
next
  case (Some s)
  obtain v st' where v: "validate_date st s = (v, st')"
    by (cases "validate_date st s")
  with console_validate_date [of st s]
  have "console st' = console st @ (if strptime s = None then [DateFormatError] else [])"
    by simp
  with Some v show ?thesis
    by (cases v) (auto simp add: update_date_def)
qed

lemma console_update_expense:
  assumes "in_range st index"
  shows "console (snd (update_expense st index a d n c)) =
     console st
     @ (case a of
          None \<Rightarrow> []
        | Some s \<Rightarrow>
            if s = [] then []
            else (case py_float s of
                    None \<Rightarrow> [AmountNotNumber]
                  | Some v \<Rightarrow> if float_le v (Finite 0) then [AmountNotPositive] else []))
     @ (case d of
          None \<Rightarrow> []
        | Some s \<Rightarrow> if s = [] \<or> strptime s \<noteq> None then [] else [DateFormatError])
     @ [if writable st then Saved (length (expenses st)) else SaveError, Updated]"
  unfolding update_expense_in_range [OF assms]
  by (simp add: console_save_data console_update_date console_update_amount)

text \<open>
  Claim C4. For an index in range, \<^verbatim>\<open>update_expense\<close> returns \<^verbatim>\<open>True\<close> whatever the four
  optional arguments are, and each field of the targeted record is settled on its own: the
  amount (the date) becomes the validated value when one is supplied and
  \<^verbatim>\<open>validate_amount\<close> (\<^verbatim>\<open>validate_date\<close>) accepts it and stays what it was otherwise;
  the note and the category become the stripped argument (the category with its default)
  when supplied and stay otherwise. The other records stay, \<^verbatim>\<open>save_data\<close> runs (a
  writable file then holds the list) and the success line is printed last, also when
  nothing was supplied or nothing supplied was valid. What is printed is given in full: a
  refused amount or date still prints the error line of its validation, and that is all
  it does; it does not stop the update and does not change the result.
\<close>

theorem update_expense_fields:
  assumes "1 \<le> index" and "index \<le> int (length (expenses st))"
  shows "let st' = snd (update_expense st index a d n c);
             i = nat (index - 1);
             old = expenses st ! i;
             new = expenses st' ! i
         in fst (update_expense st index a d n c) = True
          \<and> length (expenses st') = length (expenses st)
          \<and> amount new =
              (case a of
                 None \<Rightarrow> amount old
               | Some s \<Rightarrow> (case fst (validate_amount st s) of
                              None \<Rightarrow> amount old | Some v \<Rightarrow> v))
          \<and> date new =
              (case d of
                 None \<Rightarrow> date old
               | Some s \<Rightarrow> (case fst (validate_date st s) of
                              None \<Rightarrow> date old | Some v \<Rightarrow> v))
          \<and> note new = (case n of None \<Rightarrow> note old | Some s \<Rightarrow> strip s)
          \<and> category new =
              (case c of
                 None \<Rightarrow> category old
               | Some s \<Rightarrow> if strip s = [] then ''Uncategorized'' else strip s)
          \<and> (\<forall>j < length (expenses st). j \<noteq> i \<longrightarrow> expenses st' ! j = expenses st ! j)
          \<and> (writable st \<longrightarrow> data_file st' = Content (expenses st'))
          \<and> console st' =
              console st
              @ (case a of
                   None \<Rightarrow> []
                 | Some s \<Rightarrow>
                     if s = [] then []
                     else (case py_float s of
                             None \<Rightarrow> [AmountNotNumber]
                           | Some v \<Rightarrow>
                               if float_le v (Finite 0) then [AmountNotPositive] else []))
              @ (case d of
                   None \<Rightarrow> []
                 | Some s \<Rightarrow> if s = [] \<or> strptime s \<noteq> None then [] else [DateFormatError])
              @ [if writable st then Saved (length (expenses st)) else SaveError, Updated]"
proof -
  define i where "i = nat (index - 1)"
  define old where "old = expenses st ! i"
  define st1 where "st1 = snd (update_amount st old a)"
  define ex2 where "ex2 = fst (update_date st1 (fst (update_amount st old a)) d)"
  define ex4 where "ex4 = update_category (update_note ex2 n) c"
  define st2 where "st2 = snd (update_date st1 (fst (update_amount st old a)) d)"
  have r: "in_range st index"
    using assms by (simp add: in_range_def)
  have i: "i < length (expenses st)"
    using assms by (simp add: i_def)
  have eq: "update_expense st index a d n c =
      (True, print Updated (save_data (st2\<lparr>expenses := (expenses st)[i := ex4]\<rparr>)))"
    unfolding update_expense_in_range [OF r] st2_def ex4_def ex2_def st1_def old_def i_def ..
  have w: "writable st2 = writable st"
    by (simp add: st2_def st1_def)
  have am: "amount ex4 =
      (case a of
         None \<Rightarrow> amount old
       | Some s \<Rightarrow> (case fst (validate_amount st s) of None \<Rightarrow> amount old | Some v \<Rightarrow> v))"
    by (simp add: ex4_def ex2_def update_category_def update_note_def fst_update_date
        fst_update_amount split: option.splits)
  have da: "date ex4 =
      (case d of
         None \<Rightarrow> date old
       | Some s \<Rightarrow> (case fst (validate_date st s) of None \<Rightarrow> date old | Some v \<Rightarrow> v))"
    by (simp add: ex4_def ex2_def update_category_def update_note_def fst_update_date
        fst_update_amount fst_validate_date split: option.splits)
  have no: "note ex4 = (case n of None \<Rightarrow> note old | Some s \<Rightarrow> strip s)"
    by (simp add: ex4_def ex2_def update_category_def update_note_def fst_update_date
        fst_update_amount split: option.splits)
  have ca: "category ex4 =
      (case c of
         None \<Rightarrow> category old
       | Some s \<Rightarrow> if strip s = [] then ''Uncategorized'' else strip s)"
    by (simp add: ex4_def ex2_def update_category_def update_note_def fst_update_date
        fst_update_amount normal_category_def split: option.splits)
  have new: "expenses (snd (update_expense st index a d n c)) ! i = ex4"
    using i by (simp add: eq)
  have others: "\<forall>j < length (expenses st). j \<noteq> i \<longrightarrow>
      expenses (snd (update_expense st index a d n c)) ! j = expenses st ! j"
    by (simp add: eq)
  have fl: "writable st \<longrightarrow> data_file (snd (update_expense st index a d n c)) =
      Content (expenses (snd (update_expense st index a d n c)))"
    by (simp add: eq data_file_save_data w)
  have out: "console (snd (update_expense st index a d n c)) =
      console st
      @ (case a of
           None \<Rightarrow> []
         | Some s \<Rightarrow>
             if s = [] then []
             else (case py_float s of
                     None \<Rightarrow> [AmountNotNumber]
                   | Some v \<Rightarrow> if float_le v (Finite 0) then [AmountNotPositive] else []))
      @ (case d of
           None \<Rightarrow> []
         | Some s \<Rightarrow> if s = [] \<or> strptime s \<noteq> None then [] else [DateFormatError])
      @ [if writable st then Saved (length (expenses st)) else SaveError, Updated]"
    by (rule console_update_expense [OF r])
  have len: "length (expenses (snd (update_expense st index a d n c))) = length (expenses st)"
    by (simp add: eq)
  have ok: "fst (update_expense st index a d n c) = True"
    by (simp add: eq)
  show ?thesis
    unfolding Let_def i_def [symmetric] old_def [symmetric] new
    using ok len am da no ca others fl out by (intro conjI)
qed

theorem update_expense_fields_witness:
  "(1::int) \<le> 1 \<and> (1::int) \<le> int (length (expenses example_tracker))
   \<and> fst (validate_amount example_tracker ''abc'') = None
   \<and> fst (validate_date example_tracker ''2024-02-30'') = None
   \<and> fst (update_expense example_tracker 1 (Some ''abc'') (Some ''2024-02-30'')
          (Some '' taxi '') (Some ''Travel'')) = True
   \<and> expenses (snd (update_expense example_tracker 1 (Some ''abc'') (Some ''2024-02-30'')
          (Some '' taxi '') (Some ''Travel''))) ! 0 =
       \<lparr>amount = Finite 10, date = ''2024-01-05'', note = ''taxi'', category = ''Travel''\<rparr>
   \<and> data_file (snd (update_expense example_tracker 1 (Some ''abc'') (Some ''2024-02-30'')
          (Some '' taxi '') (Some ''Travel''))) =
       Content (expenses (snd (update_expense example_tracker 1 (Some ''abc'')
          (Some ''2024-02-30'') (Some '' taxi '') (Some ''Travel''))))"
proof -
  have h: "(1::int) \<le> 1" "(1::int) \<le> int (length (expenses example_tracker))"
    by (simp_all add: example_tracker_def example_expenses_def)
  have va: "fst (validate_amount example_tracker ''abc'') = None"
    by (simp add: fst_validate_amount parse_eval)
  have vd: "fst (validate_date example_tracker ''2024-02-30'') = None"
    by (simp add: fst_validate_date date_eval)
  have s1: "strip '' taxi '' = ''taxi''"
    by (simp add: strip_eval)
  have s2: "strip ''Travel'' = ''Travel''"
    by (simp add: strip_eval)
  have old: "expenses example_tracker ! 0 =
      \<lparr>amount = Finite 10, date = ''2024-01-05'', note = '''', category = ''Food''\<rparr>"
    by (simp add: example_tracker_def example_expenses_def)
  have w: "writable example_tracker"
    by (simp add: example_tracker_def)
  have "amount (expenses (snd (update_expense example_tracker 1 (Some ''abc'')
          (Some ''2024-02-30'') (Some '' taxi '') (Some ''Travel''))) ! 0) = Finite 10
      \<and> date (expenses (snd (update_expense example_tracker 1 (Some ''abc'')
          (Some ''2024-02-30'') (Some '' taxi '') (Some ''Travel''))) ! 0) = ''2024-01-05''
      \<and> note (expenses (snd (update_expense example_tracker 1 (Some ''abc'')
          (Some ''2024-02-30'') (Some '' taxi '') (Some ''Travel''))) ! 0) = ''taxi''
      \<and> category (expenses (snd (update_expense example_tracker 1 (Some ''abc'')
          (Some ''2024-02-30'') (Some '' taxi '') (Some ''Travel''))) ! 0) = ''Travel''
      \<and> fst (update_expense example_tracker 1 (Some ''abc'') (Some ''2024-02-30'')
          (Some '' taxi '') (Some ''Travel'')) = True
      \<and> data_file (snd (update_expense example_tracker 1 (Some ''abc'') (Some ''2024-02-30'')
          (Some '' taxi '') (Some ''Travel''))) =
       Content (expenses (snd (update_expense example_tracker 1 (Some ''abc'')
          (Some ''2024-02-30'') (Some '' taxi '') (Some ''Travel''))))"
    using update_expense_fields [OF h, of "Some ''abc''" "Some ''2024-02-30''"
        "Some '' taxi ''" "Some ''Travel''"]
    by (simp add: Let_def va vd s1 s2 old w)
  then show ?thesis
    using h va vd
    by (cases "expenses (snd (update_expense example_tracker 1 (Some ''abc'')
          (Some ''2024-02-30'') (Some '' taxi '') (Some ''Travel''))) ! 0") simp
qed

text \<open>
  Claim C9. For an index in range and only a note supplied, the list after
  \<^verbatim>\<open>update_expense\<close> is the list before with the stripped note put into the targeted
  record: its amount, date and category are what they were, and so is every other record.
\<close>

theorem update_note_only:
  assumes "1 \<le> index" and "index \<le> int (length (expenses st))"
  shows "let st' = snd (update_expense st index None None (Some n) None);
             i = nat (index - 1);
             old = expenses st ! i;
             new = expenses st' ! i
         in fst (update_expense st index None None (Some n) None) = True
          \<and> expenses st' = (expenses st)[i := old\<lparr>note := strip n\<rparr>]
          \<and> note new = strip n
          \<and> amount new = amount old
          \<and> date new = date old
          \<and> category new = category old
          \<and> length (expenses st') = length (expenses st)
          \<and> (\<forall>j < length (expenses st). j \<noteq> i \<longrightarrow> expenses st' ! j = expenses st ! j)"
proof -
  have r: "in_range st index"
    using assms by (simp add: in_range_def)
  have i: "nat (index - 1) < length (expenses st)"
    using assms by simp
  show ?thesis
    unfolding Let_def update_expense_in_range [OF r]
    using i by (simp add: update_amount_def update_date_def update_note_def update_category_def)
qed

theorem update_note_only_witness:
  "(1::int) \<le> 2 \<and> (2::int) \<le> int (length (expenses example_tracker))
   \<and> fst (update_expense example_tracker 2 None None (Some ''  coffee '') None) = True
   \<and> expenses (snd (update_expense example_tracker 2 None None (Some ''  coffee '') None)) =
       [\<lparr>amount = Finite 10, date = ''2024-01-05'', note = '''', category = ''Food''\<rparr>,
        \<lparr>amount = Finite 5, date = ''2024-01-20'', note = ''coffee'', category = ''Food''\<rparr>,
        \<lparr>amount = Finite 7, date = ''2024-02-01'', note = '''', category = ''Travel''\<rparr>]"
proof -
  have h: "(1::int) \<le> 2" "(2::int) \<le> int (length (expenses example_tracker))"
    by (simp_all add: example_tracker_def example_expenses_def)
  have s: "strip ''  coffee '' = ''coffee''"
    by (simp add: strip_eval)
  have xs: "expenses example_tracker = example_expenses"
    by (simp add: example_tracker_def)
  show ?thesis
    using update_note_only [OF h, of "''  coffee ''"] h
    by (simp add: Let_def s xs example_expenses_def)
qed

subsection \<open>Viewing with an empty filter\<close>

text \<open>
  Claim C10. An empty string as category filter or as date filter is the same to
  \<^verbatim>\<open>view_expenses\<close> as no filter: the calls print the same. With both filters empty and a
  store that is not empty, the header and one line for each record of the store are
  printed.
\<close>

theorem view_empty_filter_is_no_filter:
  "view_expenses st (Some []) fd = view_expenses st None fd
   \<and> view_expenses st fc (Some []) = view_expenses st fc None
   \<and> (expenses st \<noteq> [] \<longrightarrow>
        view_expenses st (Some []) (Some []) =
          st\<lparr>console := console st @ ExpensesHeader # expense_lines (expenses st)\<rparr>)
   \<and> length (expense_lines (expenses st)) = length (expenses st)"
proof -
  have "length (expense_lines (expenses st)) = length (expenses st)"
    by (simp add: expense_lines_def del: upt_Suc)
  then show ?thesis
    by (simp add: view_expenses_def filter_by_category_def filter_by_date_def Let_def)
qed

theorem view_empty_filter_is_no_filter_witness:
  "expenses example_tracker \<noteq> []
   \<and> console (view_expenses example_tracker (Some []) (Some [])) =
       [ExpensesHeader,
        ExpenseLine 1 ''2024-01-05'' (Finite 10) ''Food'' '''',
        ExpenseLine 2 ''2024-01-20'' (Finite 5) ''Food'' '''',
        ExpenseLine 3 ''2024-02-01'' (Finite 7) ''Travel'' '''']"
proof -
  have h: "expenses example_tracker \<noteq> []"
    by (simp add: example_tracker_def example_expenses_def)
  have l: "expense_lines (expenses example_tracker) =
       [ExpenseLine 1 ''2024-01-05'' (Finite 10) ''Food'' '''',
        ExpenseLine 2 ''2024-01-20'' (Finite 5) ''Food'' '''',
        ExpenseLine 3 ''2024-02-01'' (Finite 7) ''Travel'' '''']"
    by (simp add: expense_lines_def example_tracker_def example_expenses_def upt_rec)
  have c: "console example_tracker = []"
    by (simp add: example_tracker_def)
  show ?thesis
    using view_empty_filter_is_no_filter [of example_tracker None None] h
    by (simp add: l c)
qed

subsection \<open>What the summary prints\<close>

lemma map_of_dict_set: "map_of (dict_set d k v) = (map_of d)(k \<mapsto> v)"
  by (induction d k v rule: dict_set.induct) auto

lemma keys_dict_set:
  "map fst (dict_set d k v) = (if k \<in> set (map fst d) then map fst d else map fst d @ [k])"
  by (induction d k v rule: dict_set.induct) auto

lemma distinct_dict_set: "distinct (map fst d) \<Longrightarrow> distinct (map fst (dict_set d k v))"
  by (simp add: keys_dict_set)

lemma py_sum_snoc: "py_sum (xs @ [a]) = float_add (py_sum xs) a"
  by (simp add: py_sum_def)

lemma group_by_snoc: "group_by key (xs @ [x]) = group_step key (group_by key xs) x"
  by (simp add: group_by_def)

lemma group_by_keys:
  "distinct (map fst (group_by key xs)) \<and> set (map fst (group_by key xs)) = key ` set xs"
proof (induction xs rule: rev_induct)
  case Nil
  show ?case by (simp add: group_by_def)
next
  case (snoc x xs)
  then show ?case
    by (auto simp add: group_by_snoc group_step_def keys_dict_set)
qed

lemma group_by_value:
  "map_of (group_by key xs) k =
     (if k \<in> key ` set xs
      then Some (py_sum (map amount (filter (\<lambda>e. key e = k) xs))) else None)"
proof (induction xs rule: rev_induct)
  case Nil
  show ?case by (simp add: group_by_def)
next
  case (snoc x xs)
  show ?case
  proof (cases "k = key x")
    case True
    show ?thesis
    proof (cases "key x \<in> key ` set xs")
      case True
      with snoc \<open>k = key x\<close> show ?thesis
        by (simp add: group_by_snoc group_step_def map_of_dict_set dict_get_def py_sum_snoc)
    next
      case False
      then have "\<forall>e \<in> set xs. key e \<noteq> key x"
        by (metis imageI)
      then have "filter (\<lambda>e. key e = key x) xs = []"
        by (simp add: filter_empty_conv)
      with snoc False \<open>k = key x\<close> show ?thesis
        by (simp add: group_by_snoc group_step_def map_of_dict_set dict_get_def py_sum_def)
    qed
  next
    case False
    with snoc show ?thesis
      by (auto simp add: group_by_snoc group_step_def map_of_dict_set)
  qed
qed

lemma distinct_keys_sort_key:
  "distinct (map fst (sort_key fst d)) = distinct (map fst d)"
  by (induction d) (simp_all add: distinct_insort_key)

lemma sorted_items_keys:
  "sorted_wrt (<) (map fst (sorted_items (group_by key xs)))"
  "set (map fst (sorted_items (group_by key xs))) = key ` set xs"
proof -
  have "sorted (map fst (sorted_items (group_by key xs)))"
    by (simp add: sorted_items_def)
  moreover have "distinct (map fst (sorted_items (group_by key xs)))"
    using group_by_keys [of key xs] by (simp add: sorted_items_def distinct_keys_sort_key)
  ultimately show "sorted_wrt (<) (map fst (sorted_items (group_by key xs)))"
    by (simp add: strict_sorted_iff)
  show "set (map fst (sorted_items (group_by key xs))) = key ` set xs"
    using group_by_keys [of key xs] by (simp add: sorted_items_def)
qed

lemma sorted_items_value:
  assumes "(k, v) \<in> set (sorted_items (group_by key xs))"
  shows "v = py_sum (map amount (filter (\<lambda>e. key e = k) xs))"
proof -
  from assms have in_d: "(k, v) \<in> set (group_by key xs)"
    by (simp add: sorted_items_def)
  have "distinct (map fst (group_by key xs))"
    using group_by_keys [of key xs] by simp
  with in_d have "map_of (group_by key xs) k = Some v"
    by simp
  then show ?thesis
    by (simp add: group_by_value split: if_splits)
qed

lemma example_total: "py_sum (map amount example_expenses) = Finite 22"
  by (simp add: py_sum_def example_expenses_def float_eval)

lemma example_by_category:
  "group_by category example_expenses = [(''Food'', Finite 15), (''Travel'', Finite 7)]"
  by (simp add: group_by_def group_step_def dict_get_def example_expenses_def float_eval)

lemma example_by_month:
  "group_by month example_expenses = [(''2024-01'', Finite 15), (''2024-02'', Finite 7)]"
  by (simp add: group_by_def group_step_def dict_get_def month_def example_expenses_def
      float_eval)

lemma example_category_lines:
  "group_lines [(''Food'', Finite 15), (''Travel'', Finite 7)] =
     [GroupLine ''Food'' (Finite 15), GroupLine ''Travel'' (Finite 7)]"
  by (simp add: group_lines_def sorted_items_def less_eq_char_def less_char_def)

lemma example_month_lines:
  "group_lines [(''2024-01'', Finite 15), (''2024-02'', Finite 7)] =
     [GroupLine ''2024-01'' (Finite 15), GroupLine ''2024-02'' (Finite 7)]"
  by (simp add: group_lines_def sorted_items_def less_eq_char_def less_char_def)

text \<open>
  Claim C8. On an empty store \<^verbatim>\<open>show_summary\<close> prints the no-data line only. On a store
  that is not empty it prints the grand total, which is \<^verbatim>\<open>sum\<close> over the amounts of all
  records, then one line for each category and then one line for each month (the first
  seven characters of the date). In both groups the keys are in strictly ascending order,
  they are exactly the keys that occur in the store, and the amount printed with a key is
  the sum, in store order, of the amounts of the records with exactly that key. On the
  three records of the example the lines are the total 22, Food 15, Travel 7, 2024-01 15
  and 2024-02 7. The store is not changed.
\<close>

theorem show_summary_totals:
  "(expenses st = [] \<longrightarrow> show_summary st = print NoSummary st)
   \<and> (expenses st \<noteq> [] \<longrightarrow>
        console (show_summary st) =
          console st
          @ [TotalSpent (py_sum (map amount (expenses st)))]
          @ ByCategoryHeader
            # map (\<lambda>(k, v). GroupLine k v) (sorted_items (group_by category (expenses st)))
          @ ByMonthHeader
            # map (\<lambda>(k, v). GroupLine k v) (sorted_items (group_by month (expenses st))))
   \<and> expenses (show_summary st) = expenses st
   \<and> sorted_wrt (<) (map fst (sorted_items (group_by category (expenses st))))
   \<and> set (map fst (sorted_items (group_by category (expenses st)))) =
       category ` set (expenses st)
   \<and> (\<forall>(k, v) \<in> set (sorted_items (group_by category (expenses st))).
         v = py_sum (map amount (filter (\<lambda>e. category e = k) (expenses st))))
   \<and> sorted_wrt (<) (map fst (sorted_items (group_by month (expenses st))))
   \<and> set (map fst (sorted_items (group_by month (expenses st)))) =
       (\<lambda>e. take 7 (date e)) ` set (expenses st)
   \<and> (\<forall>(k, v) \<in> set (sorted_items (group_by month (expenses st))).
         v = py_sum (map amount (filter (\<lambda>e. take 7 (date e) = k) (expenses st))))
   \<and> console (show_summary example_tracker) =
       [TotalSpent (Finite 22),
        ByCategoryHeader, GroupLine ''Food'' (Finite 15), GroupLine ''Travel'' (Finite 7),
        ByMonthHeader, GroupLine ''2024-01'' (Finite 15), GroupLine ''2024-02'' (Finite 7)]"
proof -
  have empty: "expenses st = [] \<longrightarrow> show_summary st = print NoSummary st"
    by (simp add: show_summary_def)
  have out: "expenses st \<noteq> [] \<longrightarrow>
        console (show_summary st) =
          console st
          @ [TotalSpent (py_sum (map amount (expenses st)))]
          @ ByCategoryHeader
            # map (\<lambda>(k, v). GroupLine k v) (sorted_items (group_by category (expenses st)))
          @ ByMonthHeader
            # map (\<lambda>(k, v). GroupLine k v) (sorted_items (group_by month (expenses st)))"
    by (simp add: show_summary_def group_lines_def Let_def)
  have same: "expenses (show_summary st) = expenses st"
    by (simp add: show_summary_def Let_def)
  have month_key: "month = (\<lambda>e. take 7 (date e))"
    by (rule ext) (simp add: month_def)
  have cat_val: "\<forall>(k, v) \<in> set (sorted_items (group_by category (expenses st))).
         v = py_sum (map amount (filter (\<lambda>e. category e = k) (expenses st)))"
    using sorted_items_value [of _ _ category "expenses st"] by blast
  have mon_val: "\<forall>(k, v) \<in> set (sorted_items (group_by month (expenses st))).
         v = py_sum (map amount (filter (\<lambda>e. take 7 (date e) = k) (expenses st)))"
    using sorted_items_value [of _ _ month "expenses st"] unfolding month_key by blast
  have mon_keys: "set (map fst (sorted_items (group_by month (expenses st)))) =
       (\<lambda>e. take 7 (date e)) ` set (expenses st)"
    using sorted_items_keys(2) [of month "expenses st"] unfolding month_key .
  have example: "console (show_summary example_tracker) =
       [TotalSpent (Finite 22),
        ByCategoryHeader, GroupLine ''Food'' (Finite 15), GroupLine ''Travel'' (Finite 7),
        ByMonthHeader, GroupLine ''2024-01'' (Finite 15), GroupLine ''2024-02'' (Finite 7)]"
  proof -
    have "expenses example_tracker = example_expenses" "console example_tracker = []"
      by (simp_all add: example_tracker_def)
    moreover have "example_expenses \<noteq> []"
      by (simp add: example_expenses_def)
    ultimately show ?thesis
      by (simp add: show_summary_def Let_def example_total example_by_category
          example_by_month example_category_lines example_month_lines)
  qed
  show ?thesis
    using empty out same sorted_items_keys(1) [of category "expenses st"]
      sorted_items_keys(2) [of category "expenses st"] cat_val
      sorted_items_keys(1) [of month "expenses st"] mon_keys mon_val example
    by (intro conjI)
qed

theorem show_summary_totals_witness:
  "expenses (empty_tracker) = []
   \<and> console (show_summary (empty_tracker)) = [NoSummary]
   \<and> expenses example_tracker \<noteq> []
   \<and> (''Food'', Finite 15) \<in> set (sorted_items (group_by category (expenses example_tracker)))
   \<and> py_sum (map amount (filter (\<lambda>e. category e = ''Food'') (expenses example_tracker))) =
       Finite 15
   \<and> console (show_summary example_tracker) =
       [TotalSpent (Finite 22),
        ByCategoryHeader, GroupLine ''Food'' (Finite 15), GroupLine ''Travel'' (Finite 7),
        ByMonthHeader, GroupLine ''2024-01'' (Finite 15), GroupLine ''2024-02'' (Finite 7)]"
proof -
  have e0: "expenses (empty_tracker) = []" "console (empty_tracker) = []"
    by (simp_all add: empty_tracker_def)
  have e1: "expenses example_tracker = example_expenses"
    by (simp add: example_tracker_def)
  have e2: "example_expenses \<noteq> []"
    by (simp add: example_expenses_def)
  have m: "(''Food'', Finite 15) \<in> set (sorted_items (group_by category example_expenses))"
    by (simp add: example_by_category sorted_items_def)
  have a: "console (show_summary (empty_tracker)) = [NoSummary]"
    using show_summary_totals [of "empty_tracker"] e0 by simp
  have b: "py_sum (map amount (filter (\<lambda>e. category e = ''Food'') example_expenses)) =
      Finite 15"
    using show_summary_totals [of example_tracker] m unfolding e1 by fastforce
  have c: "console (show_summary example_tracker) =
       [TotalSpent (Finite 22),
        ByCategoryHeader, GroupLine ''Food'' (Finite 15), GroupLine ''Travel'' (Finite 7),
        ByMonthHeader, GroupLine ''2024-01'' (Finite 15), GroupLine ''2024-02'' (Finite 7)]"
    using show_summary_totals [of example_tracker] by blast
  show ?thesis
    using a b c m e0 e2 by (simp add: e1)
qed

subsection \<open>The records of the reachable states\<close>

lemma init_absent: "init Absent True = Inr empty_tracker"
  by (simp add: init_def load_data_def empty_tracker_def)

lemma init_Inr:
  assumes "init f w = Inr st"
  shows "expenses st = file_records f"
  using assms by (cases f) (auto simp add: init_def load_data_def file_records_def)

lemma float_gt_iff: "float_gt a (Finite 0) \<longleftrightarrow> a \<noteq> NaN \<and> \<not> float_le a (Finite 0)"
  by (cases a) auto

lemma normal_category_not_empty: "normal_category c \<noteq> []"
  by (simp add: normal_category_def)

lemma validate_amount_plain:
  assumes "plain_amount s" and "fst (validate_amount st s) = Some v"
  shows "float_gt v (Finite 0)"
  using assms
  by (auto simp add: fst_validate_amount plain_amount_def float_gt_iff
      split: option.splits if_splits)

lemma validate_date_plain:
  assumes "plain_date s" and "fst (validate_date st s) = Some v"
  shows "strict_iso_date v"
  using assms by (auto simp add: fst_validate_date plain_date_def split: if_splits)

lemma add_expense_cases:
  assumes "plain_amount a" and "plain_date d"
  shows "expenses (snd (add_expense st a d n c)) = expenses st
   \<or> (\<exists>e. spec_record_ok e \<and> expenses (snd (add_expense st a d n c)) = expenses st @ [e])"
proof -
  obtain va st1 where va: "validate_amount st a = (va, st1)"
    by (cases "validate_amount st a")
  obtain vd st2 where vd: "validate_date st1 d = (vd, st2)"
    by (cases "validate_date st1 d")
  have xs: "expenses st2 = expenses st"
    using snd_validate_amount(1) [of st a] snd_validate_date(1) [of st1 d]
    by (simp add: va vd)
  show ?thesis
  proof (cases va)
    case None
    then show ?thesis
      by (simp add: add_expense_def va vd xs)
  next
    case (Some v)
    note v = this
    show ?thesis
    proof (cases vd)
      case None
      with v show ?thesis
        by (simp add: add_expense_def va vd xs)
    next
      case (Some d')
      have "float_gt v (Finite 0)"
        using validate_amount_plain [OF assms(1), of st v] by (simp add: va v)
      moreover have "strict_iso_date d'"
        using validate_date_plain [OF assms(2), of st1 d'] by (simp add: vd Some)
      ultimately have "spec_record_ok
          \<lparr>amount = v, date = d', note = strip n, category = normal_category c\<rparr>"
        by (simp add: spec_record_ok_def normal_category_not_empty)
      with v Some show ?thesis
        by (simp add: add_expense_def va vd xs)
    qed
  qed
qed

lemma add_expense_ok:
  assumes "list_all spec_record_ok (expenses st)" and "plain_amount a" and "plain_date d"
  shows "list_all spec_record_ok (expenses (snd (add_expense st a d n c)))"
  using add_expense_cases [OF assms(2,3), of st n c] assms(1) by auto

lemma update_amount_ok:
  assumes "spec_record_ok ex" and "case a of None \<Rightarrow> True | Some s \<Rightarrow> plain_amount s"
  shows "spec_record_ok (fst (update_amount st ex a))"
  using assms validate_amount_plain [of _ st]
  by (auto simp add: fst_update_amount spec_record_ok_def split: option.splits)

lemma update_date_ok:
  assumes "spec_record_ok ex" and "case d of None \<Rightarrow> True | Some s \<Rightarrow> plain_date s"
  shows "spec_record_ok (fst (update_date st ex d))"
  using assms validate_date_plain [of _ st]
  by (auto simp add: fst_update_date spec_record_ok_def split: option.splits)

lemma update_note_ok: "spec_record_ok ex \<Longrightarrow> spec_record_ok (update_note ex n)"
  by (simp add: update_note_def spec_record_ok_def split: option.splits)

lemma update_category_ok: "spec_record_ok ex \<Longrightarrow> spec_record_ok (update_category ex c)"
  by (simp add: update_category_def spec_record_ok_def normal_category_not_empty
      split: option.splits)

lemma update_expense_ok:
  assumes "list_all spec_record_ok (expenses st)"
    and "case a of None \<Rightarrow> True | Some s \<Rightarrow> plain_amount s"
    and "case d of None \<Rightarrow> True | Some s \<Rightarrow> plain_date s"
  shows "list_all spec_record_ok (expenses (snd (update_expense st i a d n c)))"
proof (cases "in_range st i")
  case False
  with assms(1) show ?thesis
    by (simp add: update_expense_def)
next
  case True
  then have lt: "nat (i - 1) < length (expenses st)"
    unfolding in_range_def by linarith
  with assms(1) have "spec_record_ok (expenses st ! nat (i - 1))"
    by (simp add: list_all_length)
  then have new: "spec_record_ok (update_category (update_note
      (fst (update_date (snd (update_amount st (expenses st ! nat (i - 1)) a))
             (fst (update_amount st (expenses st ! nat (i - 1)) a)) d)) n) c)"
    by (intro update_category_ok update_note_ok update_date_ok update_amount_ok assms(2,3))
  show ?thesis
    unfolding update_expense_in_range [OF True]
    using assms(1) new lt by (auto simp add: list_all_length nth_list_update)
qed

lemma delete_expense_ok:
  assumes "list_all spec_record_ok (expenses st)"
  shows "list_all spec_record_ok (expenses (snd (delete_expense st i)))"
proof -
  have "list_all spec_record_ok (take k (expenses st) @ drop (Suc k) (expenses st))" for k
    using assms by (auto simp add: list_all_iff dest: in_set_takeD in_set_dropD)
  then show ?thesis
    using assms by (simp add: delete_expense_def Let_def)
qed

lemma perform_ok:
  assumes "list_all spec_record_ok (expenses st)" and "plain_command c"
  shows "list_all spec_record_ok (expenses (perform st c))"
  using assms
  by (cases c) (simp_all add: add_expense_ok update_expense_ok delete_expense_ok)

lemma run_ok:
  assumes "list_all spec_record_ok (expenses st)" and "list_all plain_command cs"
  shows "list_all spec_record_ok (expenses (run st cs))"
  using assms unfolding run_def
  by (induction cs arbitrary: st) (simp_all add: perform_ok)

text \<open>
  Claim C2, as stated, fails: \<^verbatim>\<open>load_data\<close> takes the records of the file as they are, so
  a file with a record whose amount is negative, whose date is no date and whose category
  is empty gives a first state that holds this record.
\<close>

theorem loaded_records_not_checked:
  "init (Content
      [\<lparr>amount = Finite (- 5), date = ''yesterday'', note = '''', category = ''''\<rparr>]) True =
     Inr \<lparr>expenses =
            [\<lparr>amount = Finite (- 5), date = ''yesterday'', note = '''', category = ''''\<rparr>],
          data_file = Content
            [\<lparr>amount = Finite (- 5), date = ''yesterday'', note = '''', category = ''''\<rparr>],
          writable = True, console = [Loaded 1]\<rparr>
   \<and> \<not> list_all spec_record_ok
         [\<lparr>amount = Finite (- 5), date = ''yesterday'', note = '''', category = ''''\<rparr>]"
  by (simp add: init_def load_data_def print_def spec_record_ok_def)

text \<open>
  Claim C2, amended. When the constructor returns a tracker, every record of the file it
  read has an amount greater than 0, a valid date in strict \<^verbatim>\<open>YYYY-MM-DD\<close> form and a
  category that is not empty, and the add and update operations are given plain amount and
  date arguments only, then every record of every state reached by add, update and delete
  operations has an amount greater than 0, a valid date in that form and a category that
  is not empty. Nothing is said about a run with an amount string that \<^verbatim>\<open>float\<close> reads as
  NaN or with a date string outside the strict form that \<^verbatim>\<open>strptime\<close> accepts.
\<close>

theorem spec_records_preserved:
  assumes "init f w = Inr st"
    and "list_all spec_record_ok (file_records f)"
    and "list_all plain_command cs"
  shows "list_all spec_record_ok (expenses (run st cs))"
  using assms by (simp add: run_ok init_Inr)

theorem spec_records_preserved_witness:
  "init (Content example_expenses) True =
     Inr \<lparr>expenses = example_expenses, data_file = Content example_expenses,
          writable = True, console = [Loaded 3]\<rparr>
   \<and> list_all spec_record_ok (file_records (Content example_expenses))
   \<and> list_all plain_command
        [Add ''12.50'' ''2024-03-15'' '' lunch '' ''  '',
         Update 1 (Some ''abc'') None (Some ''taxi'') None,
         Delete 2]
   \<and> list_all spec_record_ok
        (expenses (run \<lparr>expenses = example_expenses, data_file = Content example_expenses,
                        writable = True, console = [Loaded 3]\<rparr>
           [Add ''12.50'' ''2024-03-15'' '' lunch '' ''  '',
            Update 1 (Some ''abc'') None (Some ''taxi'') None,
            Delete 2]))"
proof -
  have i: "init (Content example_expenses) True =
     Inr \<lparr>expenses = example_expenses, data_file = Content example_expenses,
          writable = True, console = [Loaded 3]\<rparr>"
    by (simp add: init_def load_data_def print_def example_expenses_def)
  have d: "strict_iso_date ''2024-01-05''" "strict_iso_date ''2024-01-20''"
    "strict_iso_date ''2024-02-01''" "strict_iso_date ''2024-03-15''"
    by (simp_all add: strict_iso_date_def valid_ymd_def days_in_month_def is_leap_def
        is_digit_def digits_val_def digit_val_def)
  have h: "list_all spec_record_ok (file_records (Content example_expenses))"
    by (simp add: file_records_def example_expenses_def spec_record_ok_def d)
  have a1: "py_float ''12.50'' = Some (Finite (25 / 2))"
    by (simp add: parse_eval float_eval)
  have a2: "py_float ''abc'' = None"
    by (simp add: parse_eval)
  have p: "list_all plain_command
        [Add ''12.50'' ''2024-03-15'' '' lunch '' ''  '',
         Update 1 (Some ''abc'') None (Some ''taxi'') None,
         Delete 2]"
    by (simp add: plain_amount_def plain_date_def a1 a2 d)
  show ?thesis
    using spec_records_preserved [OF i h p] i h p by simp
qed

subsection \<open>Which dates are accepted\<close>

lemma month_alts_digits:
  "\<forall>a \<in> set ''0123456789''. \<forall>b \<in> set ''0123456789''.
     1 \<le> digits_val [a, b] \<and> digits_val [a, b] \<le> 12 \<longrightarrow>
     alts_m (a # b # r) \<noteq> [] \<and> hd (alts_m (a # b # r)) = (digits_val [a, b], r)"
  by (simp add: alts_m_def alt2_def alt1_def one_to_nine_def digits_val_def digit_val_def
      is_digit_def)

lemma day_alts_digits:
  "\<forall>a \<in> set ''0123456789''. \<forall>b \<in> set ''0123456789''.
     1 \<le> digits_val [a, b] \<and> digits_val [a, b] \<le> 31 \<longrightarrow>
     alts_d (a # b # r) \<noteq> [] \<and> hd (alts_d (a # b # r)) = (digits_val [a, b], r)"
  by (simp add: alts_d_def alt2_def alt1_def one_to_nine_def digits_val_def digit_val_def
      is_digit_def)

lemma month_alts:
  assumes "is_digit a" and "is_digit b"
    and "1 \<le> digits_val [a, b]" and "digits_val [a, b] \<le> 12"
  obtains rest where "alts_m (a # b # r) = (digits_val [a, b], r) # rest"
proof -
  from assms month_alts_digits [of r]
  have "alts_m (a # b # r) \<noteq> []" and "hd (alts_m (a # b # r)) = (digits_val [a, b], r)"
    unfolding is_digit_def by blast+
  then show thesis
    using that by (cases "alts_m (a # b # r)") simp_all
qed

lemma day_alts:
  assumes "is_digit a" and "is_digit b"
    and "1 \<le> digits_val [a, b]" and "digits_val [a, b] \<le> 31"
  obtains rest where "alts_d (a # b # r) = (digits_val [a, b], r) # rest"
proof -
  from assms day_alts_digits [of r]
  have "alts_d (a # b # r) \<noteq> []" and "hd (alts_d (a # b # r)) = (digits_val [a, b], r)"
    unfolding is_digit_def by blast+
  then show thesis
    using that by (cases "alts_d (a # b # r)") simp_all
qed

lemma days_in_month_le_31: "days_in_month y m \<le> 31"
  by (simp add: days_in_month_def)

lemma length_ten:
  assumes "length s = 10"
  obtains c0 c1 c2 c3 c4 c5 c6 c7 c8 c9 where "s = [c0, c1, c2, c3, c4, c5, c6, c7, c8, c9]"
proof -
  from assms have "\<exists>c0 c1 c2 c3 c4 c5 c6 c7 c8 c9. s = [c0, c1, c2, c3, c4, c5, c6, c7, c8, c9]"
    by (simp add: eval_nat_numeral length_Suc_conv) blast
  then show thesis
    using that by blast
qed

lemma strptime_strict:
  assumes "strict_iso_date s"
  shows "strptime s \<noteq> None"
proof -
  from assms have len: "length s = 10"
    by (simp add: strict_iso_date_def)
  then obtain c0 c1 c2 c3 c4 c5 c6 c7 c8 c9
    where s: "s = [c0, c1, c2, c3, c4, c5, c6, c7, c8, c9]"
    by (rule length_ten)
  from assms have dy: "is_digit c0" "is_digit c1" "is_digit c2" "is_digit c3"
    and dm: "is_digit c5" "is_digit c6" and dd: "is_digit c8" "is_digit c9"
    and hy: "c4 = CHR ''-''" "c7 = CHR ''-''"
    and v: "valid_ymd (digits_val [c0, c1, c2, c3]) (digits_val [c5, c6]) (digits_val [c8, c9])"
    by (simp_all add: strict_iso_date_def s)
  from v have m: "1 \<le> digits_val [c5, c6]" "digits_val [c5, c6] \<le> 12"
    and d: "1 \<le> digits_val [c8, c9]" "digits_val [c8, c9] \<le> 31"
    using days_in_month_le_31 [of "digits_val [c0, c1, c2, c3]" "digits_val [c5, c6]"]
    by (simp_all add: valid_ymd_def)
  obtain rest_m where am:
    "alts_m [c5, c6, CHR ''-'', c8, c9] = (digits_val [c5, c6], [CHR ''-'', c8, c9]) # rest_m"
    using month_alts [OF dm m] by blast
  obtain rest_d where ad: "alts_d [c8, c9] = (digits_val [c8, c9], []) # rest_d"
    using day_alts [OF dd d] by blast
  have "regex_match s =
      Some (digits_val [c0, c1, c2, c3], digits_val [c5, c6], digits_val [c8, c9], [])"
    by (simp add: regex_match_def match_Y_def after_hyphen_def s dy hy am ad)
  with v show ?thesis
    by (simp add: strptime_def)
qed

text \<open>
  Claim C3. \<^verbatim>\<open>validate_date\<close> accepts every valid date in strict \<^verbatim>\<open>YYYY-MM-DD\<close> form and
  refuses the specification's examples \<^verbatim>\<open>2024-02-30\<close>, \<^verbatim>\<open>2023-13-01\<close> and
  \<^verbatim>\<open>not-a-date\<close>, but it does not refuse every string outside that form: the month and
  day groups of \<^verbatim>\<open>strptime\<close> also match a single digit, so \<^verbatim>\<open>2024-1-5\<close> is accepted and
  returned as it is, and the month key that \<^verbatim>\<open>show_summary\<close> cuts from such a date is
  \<^verbatim>\<open>2024-1-\<close>.
\<close>

theorem validate_date_accepts_short_fields:
  "(strict_iso_date s \<longrightarrow> fst (validate_date st s) = Some s)
   \<and> fst (validate_date st ''2024-1-5'') = Some ''2024-1-5''
   \<and> \<not> strict_iso_date ''2024-1-5''
   \<and> month \<lparr>amount = Finite 3, date = ''2024-1-5'', note = [], category = ''Food''\<rparr> =
       ''2024-1-''
   \<and> fst (validate_date st ''2024-02-30'') = None
   \<and> fst (validate_date st ''2023-13-01'') = None
   \<and> fst (validate_date st ''not-a-date'') = None"
proof -
  have "strict_iso_date s \<longrightarrow> fst (validate_date st s) = Some s"
    using strptime_strict [of s] by (auto simp add: fst_validate_date)
  moreover have "fst (validate_date st ''2024-1-5'') = Some ''2024-1-5''"
    by (simp add: fst_validate_date date_eval)
  moreover have "\<not> strict_iso_date ''2024-1-5''"
    by (simp add: strict_iso_date_def)
  moreover have
    "month \<lparr>amount = Finite 3, date = ''2024-1-5'', note = [], category = ''Food''\<rparr> =
       ''2024-1-''"
    by (simp add: month_def)
  moreover have "fst (validate_date st ''2024-02-30'') = None"
    by (simp add: fst_validate_date date_eval)
  moreover have "fst (validate_date st ''2023-13-01'') = None"
    by (simp add: fst_validate_date date_eval)
  moreover have "fst (validate_date st ''not-a-date'') = None"
    by (simp add: fst_validate_date date_eval)
  ultimately show ?thesis
    by (intro conjI)
qed

theorem validate_date_accepts_short_fields_witness:
  "strict_iso_date ''2024-02-29''
   \<and> fst (validate_date example_tracker ''2024-02-29'') = Some ''2024-02-29''"
proof -
  have h: "strict_iso_date ''2024-02-29''"
    by (simp add: strict_iso_date_def valid_ymd_def days_in_month_def is_leap_def
        is_digit_def digits_val_def digit_val_def)
  show ?thesis
    using validate_date_accepts_short_fields [of "''2024-02-29''" example_tracker] h
    by simp
qed

end
